theory Spec2Isabelle
  imports Main
begin

section \<open>JavaScript strings\<close>

text \<open>
  A JavaScript string is a sequence of UTF-16 code units. The model's \<open>string\<close> holds the
  code units below 256 (ASCII and Latin-1), one per \<open>char\<close>; this covers every literal of the
  source and every date format it handles. Code units above 255 are outside the model.
\<close>

text \<open>\<open>\d\<close> of a JavaScript regular expression: the ASCII digits only.\<close>

definition is_digit :: "char \<Rightarrow> bool" where
  "is_digit c = (48 \<le> (of_char c :: nat) \<and> (of_char c :: nat) \<le> 57)"

text \<open>
  The characters \<open>String.prototype.trim\<close> removes, as far as they are below 256: TAB, LF,
  VT, FF, CR, SPACE and NO-BREAK SPACE.
\<close>

definition is_space :: "char \<Rightarrow> bool" where
  "is_space c = ((of_char c :: nat) \<in> {9, 10, 11, 12, 13, 32, 160})"

definition trim :: "string \<Rightarrow> string" where
  "trim s = rev (dropWhile is_space (rev (dropWhile is_space s)))"

text \<open>
  \<open>s.split(c)\<close> for a separator of one character: the pieces between the separators, in
  order; a string without the separator (also the empty string) gives one piece.
\<close>

fun split_acc :: "char \<Rightarrow> string \<Rightarrow> string \<Rightarrow> string list" where
  "split_acc c acc [] = [rev acc]"
| "split_acc c acc (x # xs) =
     (if x = c then rev acc # split_acc c [] xs else split_acc c (x # acc) xs)"

definition split_js :: "string \<Rightarrow> char \<Rightarrow> string list" where
  "split_js s c = split_acc c [] s"

text \<open>\<open>xs[i]\<close> on an array: \<open>undefined\<close> (here \<open>None\<close>) out of range.\<close>

definition at_index :: "'a list \<Rightarrow> nat \<Rightarrow> 'a option" where
  "at_index xs i = (if i < length xs then Some (xs ! i) else None)"

text \<open>
  \<open>a || b\<close> where \<open>a\<close> is a string, \<open>undefined\<close> or \<open>null\<close> and \<open>b\<close> is a string:
  \<open>undefined\<close>, \<open>null\<close> and the empty string are falsy.
\<close>

definition truthy_str :: "string option \<Rightarrow> bool" where
  "truthy_str a = (case a of None \<Rightarrow> False | Some s \<Rightarrow> s \<noteq> [])"

definition or_str :: "string option \<Rightarrow> string \<Rightarrow> string" where
  "or_str a b = (case a of None \<Rightarrow> b | Some s \<Rightarrow> if s = [] then b else s)"

text \<open>\<open>a || b\<close> where both sides are strings.\<close>

definition or_s :: "string \<Rightarrow> string \<Rightarrow> string" where
  "or_s a b = (if a = [] then b else a)"

text \<open>\<open>a || b\<close> where both sides may be \<open>null\<close> or \<open>undefined\<close>.\<close>

definition or_opt :: "string option \<Rightarrow> string option \<Rightarrow> string option" where
  "or_opt a b = (if truthy_str a then a else b)"

section \<open>Date Normalizer\<close>

text \<open>The test \<open>/^\d{4}-\d{2}-\d{2}T/.test(s)\<close>: anchored at the start only.\<close>

definition iso_anchor :: "string \<Rightarrow> bool" where
  "iso_anchor s =
     (11 \<le> length s \<and> list_all is_digit (take 4 s) \<and> s ! 4 = CHR ''-'' \<and>
      list_all is_digit (take 2 (drop 5 s)) \<and> s ! 7 = CHR ''-'' \<and>
      list_all is_digit (take 2 (drop 8 s)) \<and> s ! 10 = CHR ''T'')"

text \<open>
  \<open>parseDate\<close> of \<open>src/app/api/proxy-leads-all/route.ts\<close>. The argument is
  \<open>string | undefined\<close>, the result \<open>string | null\<close>; \<open>None\<close> stands for \<open>undefined\<close> in the
  argument and for \<open>null\<close> in the result.
\<close>

definition parseDate :: "string option \<Rightarrow> string option" where
  "parseDate input =
     (case input of
        None \<Rightarrow> None
      | Some s \<Rightarrow>
          if s = [] then None
          else
            let trimmed = trim s in
            if trimmed = [] then None
            else if iso_anchor trimmed then Some trimmed
            else
              let parts = split_js trimmed CHR '' '';
                  datePart = or_str (at_index parts 0) [];
                  timePart = or_str (at_index parts 1) ''00:00'';
                  dmY = split_js datePart CHR ''/''
              in
                (case dmY of
                   [d, m, y] \<Rightarrow>
                     let hm = split_js timePart CHR '':'';
                         hh = at_index hm 0;
                         mm = at_index hm 1
                     in Some (y @ ''-'' @ m @ ''-'' @ d @ ''T'' @ or_str hh ''00'' @ '':'' @
                              or_str mm ''00'' @ '':00'')
                 | _ \<Rightarrow> None))"

section \<open>JSON values\<close>

text \<open>
  What \<open>res.json()\<close> yields, and what the handlers read with \<open>obj[key]\<close>: a value of type
  \<open>unknown\<close> / \<open>any\<close>. An object is the list of its own properties, each key once (a lookup
  takes the first entry). Numbers are carried as integers: the source only tests them
  (\<open>typeof\<close>, truthiness), passes them on as ids or prints them.
\<close>

datatype jsval =
    JUndefined
  | JNull
  | JBool bool
  | JNum int
  | JStr string
  | JArr "jsval list"
  | JObj "(string \<times> jsval) list"

text \<open>\<open>!!v\<close>: \<open>undefined\<close>, \<open>null\<close>, \<open>false\<close>, \<open>0\<close> and \<open>""\<close> are falsy; arrays and objects are truthy.\<close>

fun truthy :: "jsval \<Rightarrow> bool" where
  "truthy JUndefined = False"
| "truthy JNull = False"
| "truthy (JBool b) = b"
| "truthy (JNum n) = (n \<noteq> 0)"
| "truthy (JStr s) = (s \<noteq> [])"
| "truthy (JArr xs) = True"
| "truthy (JObj kvs) = True"

text \<open>A template literal prints a missing destructured element as \<open>undefined\<close>.\<close>

definition template_str :: "string option \<Rightarrow> string" where
  "template_str a = (case a of None \<Rightarrow> ''undefined'' | Some s \<Rightarrow> s)"

text \<open>
  \<open>parseImoviewDate\<close> of \<open>src/app/api/proxy-leads/route.ts\<close>, called on
  \<open>item.datahoraentradalead\<close>, a value of type \<open>any\<close>. On a truthy value that is not a string,
  \<open>dateStr.split\<close> is not a function: the \<open>TypeError\<close> is caught and the result is \<open>null\<close>.
\<close>

definition parseImoviewDate :: "jsval \<Rightarrow> string option" where
  "parseImoviewDate dateStr =
     (if \<not> truthy dateStr then None
      else
        (case dateStr of
           JStr s \<Rightarrow>
             let parts = split_js s CHR '' '';
                 datePart = at_index parts 0;
                 timePart = at_index parts 1
             in
               (case datePart of
                  None \<Rightarrow> None
                | Some dp \<Rightarrow>
                    if dp = [] then None
                    else
                      let dmy = split_js dp CHR ''/'';
                          day = at_index dmy 0;
                          month = at_index dmy 1;
                          year = at_index dmy 2;
                          hm = (if truthy_str timePart then split_js (or_str timePart []) CHR '':''
                                else [''00'', ''00'']);
                          hour = at_index hm 0;
                          minute = at_index hm 1
                      in Some (template_str year @ ''-'' @ template_str month @ ''-'' @
                               template_str day @ ''T'' @ template_str hour @ '':'' @
                               template_str minute @ '':00''))
         | _ \<Rightarrow> None))"

text \<open>
  The shape the claims call \<open>DD/MM/YYYY HH:mm\<close>: \<open>digits n s\<close> says that \<open>s\<close> is a run of
  exactly \<open>n\<close> ASCII digits.
\<close>

definition digits :: "nat \<Rightarrow> string \<Rightarrow> bool" where
  "digits n s = (length s = n \<and> list_all is_digit s)"

section \<open>Property reads\<close>

datatype exn = TypeError

definition is_nullish :: "jsval \<Rightarrow> bool" where
  "is_nullish v = (v = JUndefined \<or> v = JNull)"

text \<open>
  \<open>obj[key]\<close> on a value that is not \<open>null\<close> or \<open>undefined\<close>, for the keys the source reads
  (none of them is a built-in property of strings, numbers, booleans or arrays): the own
  property of an object, \<open>undefined\<close> otherwise. On \<open>null\<close> and \<open>undefined\<close> JavaScript throws
  a \<open>TypeError\<close>; every caller below tests \<open>is_nullish\<close> first and throws there.
\<close>

definition getProp :: "jsval \<Rightarrow> string \<Rightarrow> jsval" where
  "getProp obj key =
     (case obj of
        JObj kvs \<Rightarrow> (case map_of kvs key of Some v \<Rightarrow> v | None \<Rightarrow> JUndefined)
      | _ \<Rightarrow> JUndefined)"

text \<open>\<open>obj?.key\<close>: \<open>undefined\<close> when \<open>obj\<close> is \<open>null\<close> or \<open>undefined\<close>.\<close>

definition getPropOpt :: "jsval \<Rightarrow> string \<Rightarrow> jsval" where
  "getPropOpt obj key = (if is_nullish obj then JUndefined else getProp obj key)"

text \<open>\<open>a || b\<close> on values of type \<open>any\<close>.\<close>

definition or_js :: "jsval \<Rightarrow> jsval \<Rightarrow> jsval" where
  "or_js a b = (if truthy a then a else b)"

definition getStr :: "jsval \<Rightarrow> string \<Rightarrow> string" where
  "getStr obj key = (case getProp obj key of JStr s \<Rightarrow> s | _ \<Rightarrow> [])"

datatype idval = IdStr string | IdNum int

definition getNumOrStr :: "jsval \<Rightarrow> string \<Rightarrow> idval option" where
  "getNumOrStr obj key =
     (case getProp obj key of
        JStr s \<Rightarrow> Some (IdStr s)
      | JNum n \<Rightarrow> Some (IdNum n)
      | _ \<Rightarrow> None)"

text \<open>\<open>a ?? b\<close>: only \<open>null\<close> and \<open>undefined\<close> give way to \<open>b\<close>.\<close>

definition nullish_or :: "'a option \<Rightarrow> 'a \<Rightarrow> 'a" where
  "nullish_or a b = (case a of Some v \<Rightarrow> v | None \<Rightarrow> b)"

section \<open>List Extractor\<close>

text \<open>\<open>extractList\<close> of \<open>src/app/api/proxy-leads-all/route.ts\<close>.\<close>

definition candidates :: "string list" where
  "candidates = [''lista'', ''leads'', ''atendimentos'', ''items'', ''resultado'', ''data'']"

fun first_array :: "jsval \<Rightarrow> string list \<Rightarrow> jsval list" where
  "first_array obj [] = []"
| "first_array obj (key # keys) =
     (case getProp obj key of JArr v \<Rightarrow> v | _ \<Rightarrow> first_array obj keys)"

definition extractList :: "jsval \<Rightarrow> jsval list" where
  "extractList data =
     (if \<not> truthy data then []
      else (case data of JArr xs \<Rightarrow> xs | _ \<Rightarrow> first_array data candidates))"

text \<open>
  \<open>extractList\<close> of \<open>src/app/api/proxy-leads/route.ts\<close>: three tests written out, for
  \<open>data.lista\<close>, \<open>data.atendimentos\<close> and \<open>data.resultado\<close>.
\<close>

definition is_array :: "jsval \<Rightarrow> bool" where
  "is_array v = (case v of JArr xs \<Rightarrow> True | _ \<Rightarrow> False)"

definition array_items :: "jsval \<Rightarrow> jsval list" where
  "array_items v = (case v of JArr xs \<Rightarrow> xs | _ \<Rightarrow> [])"

definition extractList_proxy_leads :: "jsval \<Rightarrow> jsval list" where
  "extractList_proxy_leads data =
     (if \<not> truthy data then []
      else if is_array data then array_items data
      else if is_array (getProp data ''lista'') then array_items (getProp data ''lista'')
      else if is_array (getProp data ''atendimentos'') then
        array_items (getProp data ''atendimentos'')
      else if is_array (getProp data ''resultado'') then array_items (getProp data ''resultado'')
      else [])"

section \<open>Numbers and their printed form\<close>

text \<open>
  \<open>Number.prototype.toString\<close> on an integer: its decimal digits, with a minus sign when
  negative (the form JavaScript prints below \<open>10^21\<close>).
\<close>

function show_nat :: "nat \<Rightarrow> string" where
  "show_nat n =
     (if n < 10 then [''0123456789'' ! n]
      else show_nat (n div 10) @ [''0123456789'' ! (n mod 10)])"
  by pat_completeness auto
termination
  by (relation "measure id") auto

declare show_nat.simps [simp del]

definition show_int :: "int \<Rightarrow> string" where
  "show_int i = (if i < 0 then CHR ''-'' # show_nat (nat (- i)) else show_nat (nat i))"

text \<open>
  A computed number that may be \<open>NaN\<close>: \<open>None\<close> is \<open>NaN\<close>. Timestamps are integers
  (milliseconds) of magnitude at most \<open>8.64 * 10^15\<close>, which a JavaScript number holds
  exactly; \<open>NaN\<close> propagates through arithmetic and makes every comparison false. The
  subtraction and the divisions below are those of the integers: correctly rounded
  floating-point division and \<open>Math.floor\<close> are monotone and exact at the thresholds the
  source compares with (60 minutes, 2 hours).
\<close>

type_synonym jsnum = "int option"

definition num_sub :: "jsnum \<Rightarrow> jsnum \<Rightarrow> jsnum" where
  "num_sub a b = (case (a, b) of (Some x, Some y) \<Rightarrow> Some (x - y) | _ \<Rightarrow> None)"

text \<open>\<open>Math.floor(a / k)\<close> for a positive integer \<open>k\<close>.\<close>

definition num_floor_div :: "jsnum \<Rightarrow> int \<Rightarrow> jsnum" where
  "num_floor_div a k = (case a of Some x \<Rightarrow> Some (x div k) | None \<Rightarrow> None)"

text \<open>\<open>a % k\<close>: the remainder takes the sign of \<open>a\<close>.\<close>

definition num_rem :: "jsnum \<Rightarrow> int \<Rightarrow> jsnum" where
  "num_rem a k = (case a of Some x \<Rightarrow> Some (sgn x * (\<bar>x\<bar> mod k)) | None \<Rightarrow> None)"

definition num_ge :: "jsnum \<Rightarrow> int \<Rightarrow> bool" where
  "num_ge a k = (case a of Some x \<Rightarrow> k \<le> x | None \<Rightarrow> False)"

definition num_lt :: "jsnum \<Rightarrow> int \<Rightarrow> bool" where
  "num_lt a k = (case a of Some x \<Rightarrow> x < k | None \<Rightarrow> False)"

definition num_str :: "jsnum \<Rightarrow> string" where
  "num_str a = (case a of Some x \<Rightarrow> show_int x | None \<Rightarrow> ''NaN'')"

section \<open>Lead Normalizer\<close>

text \<open>
  The object both normalizers of \<open>proxy-leads-all\<close> return, which is also the \<open>Lead\<close> of the
  dashboard. \<open>None\<close> in \<open>primeira_interacao\<close> is \<open>undefined\<close>.
\<close>

record lead =
  lead_id :: idval
  nome :: string
  telefone :: string
  email :: string
  status :: string
  time :: string
  data_entrada :: string
  primeira_interacao :: "string option"
  origem :: string
  tem_atendimento :: bool

text \<open>
  \<open>mapAtendimento\<close> and \<open>mapBruto\<close>. The first statement reads \<open>item[...]\<close>, which throws when
  \<open>item\<close> is \<open>null\<close> or \<open>undefined\<close>; later reads are on \<open>item\<close> again or on \<open>leadObj\<close>, which is
  truthy or \<open>{}\<close>. The argument \<open>r\<close> is what \<open>Math.random().toString()\<close> gives at this call and
  \<open>now_iso\<close> what \<open>new Date().toISOString()\<close> gives.
\<close>

definition leadObj_of :: "jsval \<Rightarrow> jsval" where
  "leadObj_of item = or_js (getProp item ''lead'') (JObj [])"

definition mapAtendimento :: "string \<Rightarrow> string \<Rightarrow> jsval \<Rightarrow> exn + lead" where
  "mapAtendimento r now_iso item =
     (if is_nullish item then Inl TypeError
      else
        let ident = nullish_or (getNumOrStr item ''codigo'') (IdStr r);
            leadObj = leadObj_of item;
            nome = or_s (getStr leadObj ''nome'')
                     (or_s (getStr item ''nome'') ''Sem Nome'');
            telefone =
              or_s (getStr leadObj ''telefone1'')
                (or_s (getStr leadObj ''celular'')
                  (or_s (getStr item ''telefone'') []));
            email = or_s (getStr leadObj ''email'')
                      (or_s (getStr item ''email'') []);
            status = or_s (getStr item ''situacao'') ''Novo'';
            time = or_s (getStr item ''unidadenome'') ''Geral'';
            entrada =
              or_str
                (or_opt (parseDate (Some (getStr item ''datahoraentradalead'')))
                        (parseDate (Some (getStr item ''data_entrada''))))
                now_iso;
            primeira =
              or_opt
                (or_opt (parseDate (Some (getStr item ''datahoraultimainteracao'')))
                        (parseDate (Some (getStr item ''primeira_interacao''))))
                None;
            origem = or_s (getStr item ''midia'') ''Site''
        in
          Inr \<lparr> lead_id = ident, nome = nome, telefone = telefone, email = email,
                status = status, time = time, data_entrada = entrada,
                primeira_interacao = or_opt primeira None, origem = origem,
                tem_atendimento = True \<rparr>)"

definition mapBruto :: "string \<Rightarrow> string \<Rightarrow> jsval \<Rightarrow> exn + lead" where
  "mapBruto r now_iso item =
     (if is_nullish item then Inl TypeError
      else
        let ident = nullish_or (getNumOrStr item ''id'')
                      (nullish_or (getNumOrStr item ''codigo'') (IdStr r));
            nome = or_s (getStr item ''nome'')
                     (or_s (getStr item ''lead_nome'') ''Sem Nome'');
            telefone =
              or_s (getStr item ''telefone1'')
                (or_s (getStr item ''celular'')
                  (or_s (getStr item ''telefone'')
                    (or_s (getStr item ''phone'') [])));
            email = or_s (getStr item ''email'') [];
            status = or_s (getStr item ''status'') ''Novo'';
            time = or_s (getStr item ''unidadenome'')
                     (or_s (getStr item ''time'') ''Geral'');
            entrada =
              or_str
                (or_opt (parseDate (Some (getStr item ''data_criacao'')))
                        (parseDate (Some (getStr item ''datahoraentradalead''))))
                now_iso;
            origem = or_s (getStr item ''origem'') ''Site''
        in
          Inr \<lparr> lead_id = ident, nome = nome, telefone = telefone, email = email,
                status = status, time = time, data_entrada = entrada,
                primeira_interacao = None, origem = origem,
                tem_atendimento = False \<rparr>)"

text \<open>
  The words of the specification for a fallback chain: the first non-empty string wins, the
  empty string if there is none.
\<close>

definition first_non_empty :: "string list \<Rightarrow> string" where
  "first_non_empty xs = (case filter (\<lambda>s. s \<noteq> []) xs of [] \<Rightarrow> [] | s # _ \<Rightarrow> s)"

section \<open>Upstream and responses\<close>

text \<open>
  What one \<open>fetch\<close> followed by \<open>res.json()\<close> can do: \<open>fetch\<close> rejects, the response is not
  \<open>ok\<close>, the body does not parse, or the body parses to a value. The upstream is a function
  of the request URL (each handler fetches each URL once).
\<close>

datatype fetch_outcome = FetchThrows | NotOk | BadBody | OkJson jsval

type_synonym upstream = "string \<Rightarrow> fetch_outcome"

datatype 'l body = ErrorBody string | LeadsBody "'l list"

record 'l response =
  status_code :: nat
  body :: "'l body"

definition BASE_URL :: string where
  "BASE_URL = ''https://api.imoview.com.br''"

text \<open>The message of both handlers when \<open>IMOVIEW_API_KEY\<close> is not set (\<open>0xE3\<close> is a-tilde).\<close>

definition missing_key_message :: string where
  "missing_key_message =
     ''API Key n'' @ [CHR 0xE3] @ ''o configurada no servidor (IMOVIEW_API_KEY)''"

text \<open>
  \<open>xs.map(f)\<close> where \<open>f\<close> may throw: the first exception ends the map. The index picks the
  outcome of \<open>Math.random()\<close> and of the clock for each call.
\<close>

fun map_throwing :: "(nat \<Rightarrow> 'a \<Rightarrow> exn + 'b) \<Rightarrow> nat \<Rightarrow> 'a list \<Rightarrow> exn + 'b list" where
  "map_throwing f i [] = Inr []"
| "map_throwing f i (x # xs) =
     (case f i x of
        Inl e \<Rightarrow> Inl e
      | Inr y \<Rightarrow> (case map_throwing f (Suc i) xs of Inl e \<Rightarrow> Inl e | Inr ys \<Rightarrow> Inr (y # ys)))"

text \<open>
  \<open>xs.sort(cmp)\<close>: a stable sort. With a consistent comparator the result is the one
  insertion gives. Where a date does not parse the comparator yields \<open>NaN\<close>, which \<open>sort\<close>
  reads as \<open>0\<close>; the order is then implementation-defined and the model takes the one
  insertion gives. \<open>getTime\<close> stands for \<open>new Date(s).getTime()\<close>.
\<close>

fun insert_by :: "('a \<Rightarrow> 'a \<Rightarrow> int) \<Rightarrow> 'a \<Rightarrow> 'a list \<Rightarrow> 'a list" where
  "insert_by cmp x [] = [x]"
| "insert_by cmp x (y # ys) = (if cmp x y \<le> 0 then x # y # ys else y # insert_by cmp x ys)"

definition sort_js :: "('a \<Rightarrow> 'a \<Rightarrow> int) \<Rightarrow> 'a list \<Rightarrow> 'a list" where
  "sort_js cmp xs = foldr (insert_by cmp) xs []"

definition newest_first :: "(string \<Rightarrow> jsnum) \<Rightarrow> ('a \<Rightarrow> string) \<Rightarrow> 'a \<Rightarrow> 'a \<Rightarrow> int" where
  "newest_first getTime entrada a b =
     (case num_sub (getTime (entrada b)) (getTime (entrada a)) of Some v \<Rightarrow> v | None \<Rightarrow> 0)"

section \<open>The handler of proxy-leads-all\<close>

definition fetchAtendimentos :: "upstream \<Rightarrow> int \<Rightarrow> jsval list" where
  "fetchAtendimentos up finalidade =
     (case up (BASE_URL @ ''/Atendimento/RetornarAtendimentos?numeroPagina=1&numeroRegistros=50''
                 @ ''&finalidade='' @ show_int finalidade @ ''&situacao=0'') of
        OkJson data \<Rightarrow> extractList data
      | _ \<Rightarrow> [])"

fun try_candidates :: "upstream \<Rightarrow> string list \<Rightarrow> jsval list" where
  "try_candidates up [] = []"
| "try_candidates up (url # urls) =
     (case up url of
        OkJson data \<Rightarrow>
          (let list = extractList data in
           if 0 < length list then list else try_candidates up urls)
      | _ \<Rightarrow> try_candidates up urls)"

definition fetchLeadsBrutos :: "upstream \<Rightarrow> jsval list" where
  "fetchLeadsBrutos up =
     try_candidates up
       [BASE_URL @ ''/Lead/RetornarLeads'', BASE_URL @ ''/Leads/RetornarLeads'',
        BASE_URL @ ''/Portal/RetornarLeads'']"

text \<open>
  \<open>GET\<close> of \<open>src/app/api/proxy-leads-all/route.ts\<close>. \<open>api_key\<close> is
  \<open>process.env.IMOVIEW_API_KEY\<close>. The handler has no \<open>try\<close> around the two maps: an exception
  of \<open>mapAtendimento\<close> or \<open>mapBruto\<close> leaves the handler (\<open>Inl\<close>).
\<close>

definition GET_proxy_leads_all ::
  "string option \<Rightarrow> upstream \<Rightarrow> (nat \<Rightarrow> string) \<Rightarrow> (nat \<Rightarrow> string) \<Rightarrow> (string \<Rightarrow> jsnum) \<Rightarrow>
   exn + lead response" where
  "GET_proxy_leads_all api_key up rnd clock getTime =
     (if \<not> truthy_str api_key then
        Inr \<lparr> status_code = 500, body = ErrorBody missing_key_message \<rparr>
      else
        let atAluguel = fetchAtendimentos up 1;
            atVenda = fetchAtendimentos up 2;
            brutos = fetchLeadsBrutos up
        in
          (case map_throwing (\<lambda>i. mapAtendimento (rnd i) (clock i)) 0 (atAluguel @ atVenda) of
             Inl e \<Rightarrow> Inl e
           | Inr atendimentos \<Rightarrow>
               (case map_throwing (\<lambda>i. mapBruto (rnd i) (clock i))
                       (length (atAluguel @ atVenda)) brutos of
                  Inl e \<Rightarrow> Inl e
                | Inr leadsBrutos \<Rightarrow>
                    Inr \<lparr> status_code = 200,
                          body = LeadsBody (sort_js (newest_first getTime data_entrada)
                                              (leadsBrutos @ atendimentos)) \<rparr>)))"

section \<open>The handler of proxy-leads\<close>

text \<open>
  \<open>v.toString()\<close> on a value of type \<open>any\<close> that came from JSON. An object with an own
  property \<open>toString\<close> holds a value that is not a function: calling it throws. An array
  joins its elements with commas, \<open>null\<close> and \<open>undefined\<close> printing as nothing.
\<close>

fun toString_js :: "jsval \<Rightarrow> exn + string"
  and join_js :: "jsval list \<Rightarrow> exn + string" where
  "toString_js JUndefined = Inl TypeError"
| "toString_js JNull = Inl TypeError"
| "toString_js (JBool b) = Inr (if b then ''true'' else ''false'')"
| "toString_js (JNum n) = Inr (show_int n)"
| "toString_js (JStr s) = Inr s"
| "toString_js (JArr xs) = join_js xs"
| "toString_js (JObj kvs) =
     (if ''toString'' \<in> set (map fst kvs) then Inl TypeError else Inr ''[object Object]'')"
| "join_js [] = Inr []"
| "join_js (x # xs) =
     (case (if x = JUndefined \<or> x = JNull then Inr [] else toString_js x) of
        Inl e \<Rightarrow> Inl e
      | Inr s \<Rightarrow>
          (case join_js xs of
             Inl e \<Rightarrow> Inl e
           | Inr t \<Rightarrow> Inr (if xs = [] then s else s @ '','' @ t)))"

text \<open>\<open>v?.toString()\<close>: \<open>undefined\<close> (here \<open>None\<close>) when \<open>v\<close> is \<open>null\<close> or \<open>undefined\<close>.\<close>

definition toString_opt :: "jsval \<Rightarrow> exn + string option" where
  "toString_opt v =
     (if is_nullish v then Inr None
      else (case toString_js v of Inl e \<Rightarrow> Inl e | Inr s \<Rightarrow> Inr (Some s)))"

definition fetchLeads :: "upstream \<Rightarrow> int \<Rightarrow> jsval" where
  "fetchLeads up finalidade =
     (case up (BASE_URL @ ''/Atendimento/RetornarAtendimentos?numeroPagina=1&numeroRegistros=20''
                 @ ''&finalidade='' @ show_int finalidade @ ''&situacao=0'') of
        OkJson data \<Rightarrow> data
      | _ \<Rightarrow> JArr [])"

text \<open>
  The callback of \<open>rawLeads.map\<close>: an object literal whose fields are of type \<open>any\<close>, so the
  mapped lead is a JSON value. \<open>item.codigo\<close> throws when \<open>item\<close> is \<open>null\<close> or \<open>undefined\<close>.
\<close>

definition null_or_str :: "string option \<Rightarrow> jsval" where
  "null_or_str a = (if truthy_str a then JStr (or_str a []) else JNull)"

definition mappedLead :: "string \<Rightarrow> string \<Rightarrow> jsval \<Rightarrow> exn + jsval" where
  "mappedLead r now_iso item =
     (if is_nullish item then Inl TypeError
      else
        (case toString_opt (getProp item ''codigo'') of
           Inl e \<Rightarrow> Inl e
         | Inr codigo \<Rightarrow>
             let lead = getProp item ''lead'' in
             Inr (JObj
               [(''id'', JStr (or_str codigo r)),
                (''nome'', or_js (getPropOpt lead ''nome'') (JStr ''Sem Nome'')),
                (''telefone'',
                   or_js (getPropOpt lead ''telefone1'')
                     (or_js (getPropOpt lead ''celular'') (JStr []))),
                (''email'', or_js (getPropOpt lead ''email'') (JStr [])),
                (''status'', or_js (getProp item ''situacao'') (JStr ''Novo'')),
                (''time'', or_js (getProp item ''unidadenome'') (JStr ''Geral'')),
                (''data_entrada'',
                   JStr (or_str (parseImoviewDate (getProp item ''datahoraentradalead''))
                           now_iso)),
                (''primeira_interacao'',
                   null_or_str (parseImoviewDate (getProp item ''datahoraultimainteracao''))),
                (''origem'', or_js (getProp item ''midia'') (JStr ''Site'')),
                (''_raw'', item)])))"

definition internal_failure_message :: string where
  "internal_failure_message = ''Falha interna ao conectar com a API''"

definition rawLeads :: "upstream \<Rightarrow> jsval list" where
  "rawLeads up =
     extractList_proxy_leads (fetchLeads up 1) @ extractList_proxy_leads (fetchLeads up 2)"

text \<open>
  \<open>GET\<close> of \<open>src/app/api/proxy-leads/route.ts\<close>: everything after the key test runs inside
  \<open>try\<close>, and the \<open>catch\<close> answers 500.
\<close>

definition GET_proxy_leads ::
  "string option \<Rightarrow> upstream \<Rightarrow> (nat \<Rightarrow> string) \<Rightarrow> (nat \<Rightarrow> string) \<Rightarrow> (string \<Rightarrow> jsnum) \<Rightarrow>
   jsval response" where
  "GET_proxy_leads api_key up rnd clock getTime =
     (if \<not> truthy_str api_key then
        \<lparr> status_code = 500, body = ErrorBody missing_key_message \<rparr>
      else
        (case map_throwing (\<lambda>i. mappedLead (rnd i) (clock i)) 0 (rawLeads up) of
           Inl e \<Rightarrow> \<lparr> status_code = 500, body = ErrorBody internal_failure_message \<rparr>
         | Inr mappedLeads \<Rightarrow>
             \<lparr> status_code = 200,
               body = LeadsBody (sort_js (newest_first getTime (\<lambda>l. getStr l ''data_entrada''))
                                   mappedLeads) \<rparr>))"

text \<open>
  The words of the specification for a source that failed: \<open>fetch\<close> threw, the response was
  not \<open>ok\<close>, or the body did not parse.
\<close>

definition source_failed :: "fetch_outcome \<Rightarrow> bool" where
  "source_failed out = (case out of OkJson data \<Rightarrow> False | _ \<Rightarrow> True)"

definition failures_as_empty :: "upstream \<Rightarrow> upstream" where
  "failures_as_empty up = (\<lambda>url. if source_failed (up url) then OkJson (JArr []) else up url)"

section \<open>Dashboard: loading the leads of proxy-leads-all\<close>

text \<open>
  \<open>RawLead\<close> of \<open>src/app/page.tsx\<close>: what the dashboard reads from an element of the
  response's \<open>leads\<close>; \<open>None\<close> is a missing (or \<open>null\<close>) property. \<open>raw_tem_atendimento\<close> is the
  property read through \<open>(l as any).tem_atendimento\<close>.
\<close>

record RawLead =
  raw_id :: "idval option"
  raw_nome :: "string option"
  raw_name :: "string option"
  raw_telefone :: "string option"
  raw_phone :: "string option"
  raw_celular :: "string option"
  raw_email :: "string option"
  raw_status :: "string option"
  raw_time :: "string option"
  raw_team :: "string option"
  raw_fila :: "string option"
  raw_data_entrada :: "string option"
  raw_created_at :: "string option"
  raw_primeira_interacao :: "string option"
  raw_first_interaction :: "string option"
  raw_origem :: "string option"
  raw_tem_atendimento :: "bool option"

text \<open>
  The dashboard takes \<open>data.leads\<close>, the list of the response. A lead of the handler as
  the dashboard receives it: \<open>NextResponse.json\<close> leaves out a
  property whose value is \<open>undefined\<close>, and the handler's leads have no property \<open>name\<close>,
  \<open>phone\<close>, \<open>celular\<close>, \<open>team\<close>, \<open>fila\<close>, \<open>created_at\<close> or \<open>first_interaction\<close>.
\<close>

definition received :: "lead \<Rightarrow> RawLead" where
  "received l =
     \<lparr> raw_id = Some (lead_id l), raw_nome = Some (nome l), raw_name = None,
       raw_telefone = Some (telefone l), raw_phone = None, raw_celular = None,
       raw_email = Some (email l), raw_status = Some (status l), raw_time = Some (time l),
       raw_team = None, raw_fila = None, raw_data_entrada = Some (data_entrada l),
       raw_created_at = None, raw_primeira_interacao = primeira_interacao l,
       raw_first_interaction = None, raw_origem = Some (origem l),
       raw_tem_atendimento = Some (tem_atendimento l) \<rparr>"

text \<open>The callback of \<open>rawLeads.map\<close> in \<open>fetchLeadsAll\<close>.\<close>

definition fetchLeadsAll_normalize :: "string \<Rightarrow> string \<Rightarrow> RawLead \<Rightarrow> lead" where
  "fetchLeadsAll_normalize r now_iso l =
     \<lparr> lead_id = nullish_or (raw_id l) (IdStr r),
       nome = nullish_or (raw_nome l) (nullish_or (raw_name l) ''Sem Nome''),
       telefone =
         nullish_or (raw_telefone l) (nullish_or (raw_phone l) (nullish_or (raw_celular l) [])),
       email = nullish_or (raw_email l) [],
       status = nullish_or (raw_status l) ''Novo'',
       time = nullish_or (raw_time l) (nullish_or (raw_team l) (nullish_or (raw_fila l) ''Geral'')),
       data_entrada = nullish_or (raw_data_entrada l) (nullish_or (raw_created_at l) now_iso),
       primeira_interacao =
         (case raw_primeira_interacao l of
            Some p \<Rightarrow> Some p
          | None \<Rightarrow> (case raw_first_interaction l of Some p \<Rightarrow> Some p | None \<Rightarrow> None)),
       origem = nullish_or (raw_origem l) ''Site'',
       tem_atendimento = (raw_tem_atendimento l = Some True) \<rparr>"

section \<open>KPIs\<close>

text \<open>\<open>toLowerCase\<close> on code units below 256, and \<open>s.includes(t)\<close>.\<close>

definition toLowerCase_char :: "char \<Rightarrow> char" where
  "toLowerCase_char c =
     (let n = (of_char c :: nat) in
      if (65 \<le> n \<and> n \<le> 90) \<or> (192 \<le> n \<and> n \<le> 222 \<and> n \<noteq> 215) then char_of (n + 32) else c)"

definition toLowerCase :: "string \<Rightarrow> string" where
  "toLowerCase s = map toLowerCase_char s"

fun starts_with :: "string \<Rightarrow> string \<Rightarrow> bool" where
  "starts_with s [] = True"
| "starts_with [] (c # cs) = False"
| "starts_with (x # xs) (c # cs) = (x = c \<and> starts_with xs cs)"

fun includes_js :: "string \<Rightarrow> string \<Rightarrow> bool" where
  "includes_js [] t = (t = [])"
| "includes_js (x # xs) t = (starts_with (x # xs) t \<or> includes_js xs t)"

text \<open>
  \<open>kpis\<close> of \<open>src/app/page.tsx\<close> over \<open>filteredLeads\<close>. \<open>percent\<close> stands for the
  floating-point expression \<open>((agendamentos / total) * 100).toFixed(1)\<close>.
\<close>

record kpi =
  totalLeads :: nat
  agendamentos :: nat
  conversao :: string
  atendimento :: nat
  pendentes :: nat

definition kpis :: "(nat \<Rightarrow> nat \<Rightarrow> string) \<Rightarrow> lead list \<Rightarrow> kpi" where
  "kpis percent filteredLeads =
     (let total = length filteredLeads;
          agendamentos =
            length (filter (\<lambda>l. includes_js (toLowerCase (status l)) ''visita'') filteredLeads);
          atendimento =
            length (filter (\<lambda>l. toLowerCase (status l) \<in> set [''em atendimento'', ''contato feito''])
                      filteredLeads);
          pendentes = length (filter (\<lambda>l. \<not> truthy_str (primeira_interacao l)) filteredLeads);
          conversao = (if 0 < total then percent agendamentos total @ ''%'' else ''0%'')
      in \<lparr> totalLeads = total, agendamentos = agendamentos, conversao = conversao,
           atendimento = atendimento, pendentes = pendentes \<rparr>)"

section \<open>SLA\<close>

text \<open>
  \<open>getSLAInfo\<close> of \<open>src/app/page.tsx\<close>. \<open>getTime s\<close> stands for \<open>new Date(s).getTime()\<close>
  (\<open>NaN\<close> when \<open>s\<close> is not a date) and \<open>now\<close> for \<open>new Date().getTime()\<close>. \<open>0xE1\<close> is a-acute.
\<close>

record sla_info =
  isLate :: bool
  label :: string
  sla_status :: string

definition getSLAInfo ::
  "(string \<Rightarrow> jsnum) \<Rightarrow> int \<Rightarrow> string \<Rightarrow> string option \<Rightarrow> sla_info" where
  "getSLAInfo getTime now entry firstInteraction =
     (let entryTime = getTime entry;
          endTime = (if truthy_str firstInteraction then getTime (or_str firstInteraction [])
                     else Some now);
          diffMs = num_sub endTime entryTime;
          diffMinutes = num_floor_div diffMs (1000 * 60);
          diffHours = num_floor_div diffMinutes 60;
          isLate = num_ge diffHours 2;
          label =
            (if truthy_str firstInteraction then
               (if num_lt diffMinutes 60 then ''Atendido em '' @ num_str diffMinutes @ ''min''
                else ''Atendido em '' @ num_str diffHours @ ''h '' @
                     num_str (num_rem diffMinutes 60) @ ''min'')
             else
               (if num_lt diffMinutes 60 then
                  ''Esperando h'' @ [CHR 0xE1] @ '' '' @ num_str diffMinutes @ ''min''
                else ''Esperando h'' @ [CHR 0xE1] @ '' '' @ num_str diffHours @ ''h '' @
                     num_str (num_rem diffMinutes 60) @ ''min''))
      in \<lparr> isLate = isLate, label = label,
           sla_status = (if isLate then ''Atrasado'' else ''No Prazo'') \<rparr>)"

text \<open>\<open>getSLAInfo\<close> of \<open>src/app/relatorios/page.tsx\<close>.\<close>

record sla_report =
  report_isLate :: bool
  report_label :: string
  report_diffMinutes :: jsnum

definition getSLAInfo_relatorios ::
  "(string \<Rightarrow> jsnum) \<Rightarrow> int \<Rightarrow> string \<Rightarrow> string option \<Rightarrow> sla_report" where
  "getSLAInfo_relatorios getTime now entry firstInteraction =
     (let entryTime = getTime entry;
          endTime = (if truthy_str firstInteraction then getTime (or_str firstInteraction [])
                     else Some now);
          diffMs = num_sub endTime entryTime;
          diffMinutes = num_floor_div diffMs (1000 * 60);
          diffHours = num_floor_div diffMinutes 60;
          isLate = num_ge diffHours 2;
          label =
            (if truthy_str firstInteraction then
               (if num_lt diffMinutes 60 then ''Atendido em '' @ num_str diffMinutes @ ''m''
                else ''Atendido em '' @ num_str diffHours @ ''h '' @
                     num_str (num_rem diffMinutes 60) @ ''m'')
             else
               (if num_lt diffMinutes 60 then
                  ''Esperando h'' @ [CHR 0xE1] @ '' '' @ num_str diffMinutes @ ''m''
                else ''Esperando h'' @ [CHR 0xE1] @ '' '' @ num_str diffHours @ ''h '' @
                     num_str (num_rem diffMinutes 60) @ ''m''))
      in \<lparr> report_isLate = isLate, report_label = label, report_diffMinutes = diffMinutes \<rparr>)"

text \<open>
  The words of the specification: the wait of a lead in milliseconds, from \<open>data_entrada\<close> to
  \<open>primeira_interacao\<close>, or to the current time when there is none; \<open>None\<close> when a date
  does not parse.
\<close>

definition wait_ms :: "(string \<Rightarrow> jsnum) \<Rightarrow> int \<Rightarrow> string \<Rightarrow> string option \<Rightarrow> jsnum" where
  "wait_ms getTime now entry firstInteraction =
     (case firstInteraction of
        None \<Rightarrow> num_sub (Some now) (getTime entry)
      | Some f \<Rightarrow> num_sub (getTime f) (getTime entry))"

text \<open>
  The words of the amended invariant for the dates of a normalized lead. \<open>reassembled s\<close>:
  \<open>s\<close> is some \<open>y-m-dTh:mi:00\<close>, whatever the five pieces are. \<open>date_shaped s\<close>: \<open>s\<close> is not
  empty, and it matches the ISO anchor or is reassembled.
\<close>

definition reassembled :: "string \<Rightarrow> bool" where
  "reassembled s =
     (\<exists>y m d hh mi. s = y @ ''-'' @ m @ ''-'' @ d @ ''T'' @ hh @ '':'' @ mi @ '':00'')"

definition date_shaped :: "string \<Rightarrow> bool" where
  "date_shaped s = (s \<noteq> [] \<and> (iso_anchor s \<or> reassembled s))"

section \<open>Facts about strings\<close>

lemma split_acc_nosep: "c \<notin> set xs \<Longrightarrow> split_acc c acc xs = [rev acc @ xs]"
  by (induction xs arbitrary: acc) auto

lemma split_acc_sep:
  "c \<notin> set xs \<Longrightarrow> split_acc c acc (xs @ c # ys) = (rev acc @ xs) # split_acc c [] ys"
  by (induction xs arbitrary: acc) auto

lemma split_js_nosep: "c \<notin> set xs \<Longrightarrow> split_js xs c = [xs]"
  by (simp add: split_js_def split_acc_nosep)

lemma split_js_sep: "c \<notin> set xs \<Longrightarrow> split_js (xs @ c # ys) c = xs # split_js ys c"
  by (simp add: split_js_def split_acc_sep)

lemma dropWhile_hd_id: "s \<noteq> [] \<Longrightarrow> \<not> P (hd s) \<Longrightarrow> dropWhile P s = s"
  by (cases s) auto

lemma trim_id: "s \<noteq> [] \<Longrightarrow> \<not> is_space (hd s) \<Longrightarrow> \<not> is_space (last s) \<Longrightarrow> trim s = s"
  by (simp add: trim_def dropWhile_hd_id hd_rev)

lemma digit_not_space: "is_digit c \<Longrightarrow> \<not> is_space c"
  by (auto simp: is_digit_def is_space_def)

lemma digits_no_sep:
  assumes "digits n s"
  shows "CHR ''/'' \<notin> set s" "CHR '' '' \<notin> set s" "CHR '':'' \<notin> set s"
  using assms by (auto simp: digits_def list_all_iff is_digit_def)

lemma digits_ends:
  assumes "digits n s" "0 < n"
  shows "s \<noteq> []" "is_digit (hd s)" "is_digit (last s)"
  using assms by (auto simp: digits_def list_all_iff)

section \<open>SLA classification\<close>

lemma le_div_iff_int:
  fixes x k n :: int
  assumes "0 < k"
  shows "(n \<le> x div k) = (n * k \<le> x)"
proof
  assume "n \<le> x div k"
  then have "n * k \<le> (x div k) * k" using assms by (simp add: mult_right_mono)
  also have "(x div k) * k \<le> x"
  proof -
    have "x = (x div k) * k + x mod k" by simp
    moreover have "0 \<le> x mod k" using assms by simp
    ultimately show ?thesis by linarith
  qed
  finally show "n * k \<le> x" .
next
  assume "n * k \<le> x"
  then have "(n * k) div k \<le> x div k" using assms by (rule zdiv_mono1)
  then show "n \<le> x div k" using assms by simp
qed

lemma two_hours_iff: "(2 \<le> (x::int) div 60000 div 60) = (7200000 \<le> x)"
proof -
  have "(2 \<le> x div 60000 div 60) = (2 * 60 \<le> x div 60000)"
    by (rule le_div_iff_int) simp
  also have "\<dots> = (2 * 60 * 60000 \<le> x)"
    by (rule le_div_iff_int) simp
  finally show ?thesis by simp
qed

lemma late_core:
  "num_ge (num_floor_div (num_floor_div w 60000) 60) 2 = num_ge w 7200000"
  by (cases w) (simp_all add: num_ge_def num_floor_div_def two_hours_iff)

lemma endTime_wait:
  "firstInteraction \<noteq> Some [] \<Longrightarrow>
   num_sub (if truthy_str firstInteraction then getTime (or_str firstInteraction [])
            else Some now) (getTime entry) = wait_ms getTime now entry firstInteraction"
  by (cases firstInteraction) (simp_all add: truthy_str_def or_str_def wait_ms_def)

text \<open>
  The empty string is falsy: \<open>getSLAInfo\<close> and the \<open>pendentes\<close> filter read a
  \<open>primeira_interacao\<close> that is the empty string as an absent one. No normalizer of the
  repository produces it (\<open>normalizers_primeira_not_empty\<close> and
  \<open>mappedLead_primeira_not_empty\<close> below).
\<close>

lemma empty_first_interaction_as_absent:
  "getSLAInfo getTime now entry (Some []) = getSLAInfo getTime now entry None \<and>
   getSLAInfo_relatorios getTime now entry (Some []) =
     getSLAInfo_relatorios getTime now entry None \<and>
   truthy_str (Some []) = truthy_str None"
  by (simp add: getSLAInfo_def getSLAInfo_relatorios_def truthy_str_def)

text \<open>
  Claim C1. For a lead whose \<open>primeira_interacao\<close> is absent or a non-empty string (the data
  model: an ISO timestamp or absent), both versions of \<open>getSLAInfo\<close> mark the lead late
  exactly when its wait, from \<open>data_entrada\<close> to \<open>primeira_interacao\<close> or to the current time
  when that is absent, is at least 120 minutes (\<open>120 * 60000\<close> milliseconds). A wait of
  exactly 120 minutes is late. When a date does not parse the wait is \<open>NaN\<close> and the lead is
  not late.
\<close>

theorem getSLAInfo_late_iff_wait_120:
  assumes "firstInteraction \<noteq> Some []"
  shows "(isLate (getSLAInfo getTime now entry firstInteraction) \<longleftrightarrow>
            num_ge (wait_ms getTime now entry firstInteraction) (120 * 60000)) \<and>
         (report_isLate (getSLAInfo_relatorios getTime now entry firstInteraction) \<longleftrightarrow>
            num_ge (wait_ms getTime now entry firstInteraction) (120 * 60000)) \<and>
         (wait_ms getTime now entry firstInteraction = Some (120 * 60000) \<longrightarrow>
            isLate (getSLAInfo getTime now entry firstInteraction) \<and>
            report_isLate (getSLAInfo_relatorios getTime now entry firstInteraction))"
proof -
  have a: "isLate (getSLAInfo getTime now entry firstInteraction) =
           num_ge (wait_ms getTime now entry firstInteraction) (120 * 60000)"
    unfolding getSLAInfo_def Let_def using endTime_wait[OF assms, of getTime now entry]
    by (simp add: late_core)
  have b: "report_isLate (getSLAInfo_relatorios getTime now entry firstInteraction) =
           num_ge (wait_ms getTime now entry firstInteraction) (120 * 60000)"
    unfolding getSLAInfo_relatorios_def Let_def using endTime_wait[OF assms, of getTime now entry]
    by (simp add: late_core)
  show ?thesis using a b by (simp add: num_ge_def)
qed

text \<open>
  A lead that entered at 10:00 and was first answered at 12:00, exactly 120 minutes later,
  is late.
\<close>

theorem getSLAInfo_late_iff_wait_120_witness:
  "Some ''2024-05-01T12:00:00'' \<noteq> Some [] \<and>
   isLate (getSLAInfo (\<lambda>s. if s = ''2024-05-01T10:00:00'' then Some 0
                            else if s = ''2024-05-01T12:00:00'' then Some 7200000 else None)
             0 ''2024-05-01T10:00:00'' (Some ''2024-05-01T12:00:00''))"
  using getSLAInfo_late_iff_wait_120 [of "Some ''2024-05-01T12:00:00''"
      "\<lambda>s. if s = ''2024-05-01T10:00:00'' then Some 0
           else if s = ''2024-05-01T12:00:00'' then Some 7200000 else None"
      0 "''2024-05-01T10:00:00''"]
  by (simp add: wait_ms_def num_sub_def num_ge_def)

section \<open>KPIs: pending leads\<close>

text \<open>
  Claim C8. For every list of leads whose \<open>primeira_interacao\<close> is absent or a non-empty
  string, the \<open>pendentes\<close> KPI is the number of leads whose \<open>primeira_interacao\<close> is absent: a
  lead without one is counted, a lead with one is not.
\<close>

theorem pendentes_counts_absent:
  assumes "\<forall>l \<in> set filteredLeads. primeira_interacao l \<noteq> Some []"
  shows "pendentes (kpis percent filteredLeads) =
         length (filter (\<lambda>l. primeira_interacao l = None) filteredLeads)"
proof -
  have "\<And>l. l \<in> set filteredLeads \<Longrightarrow>
          (\<not> truthy_str (primeira_interacao l)) = (primeira_interacao l = None)"
    using assms by (auto simp: truthy_str_def split: option.splits)
  then have "filter (\<lambda>l. \<not> truthy_str (primeira_interacao l)) filteredLeads =
             filter (\<lambda>l. primeira_interacao l = None) filteredLeads"
    by (auto intro: filter_cong)
  then show ?thesis by (simp add: kpis_def Let_def)
qed

text \<open>Of one answered and one unanswered lead, one is pending.\<close>

theorem pendentes_counts_absent_witness:
  "pendentes (kpis (\<lambda>a t. ''0.0'')
     [\<lparr> lead_id = IdNum 1, nome = ''Ana'', telefone = ''11999999999'', email = [],
        status = ''Novo'', time = ''Geral'', data_entrada = ''2024-05-01T10:00:00'',
        primeira_interacao = None, origem = ''Site'', tem_atendimento = False \<rparr>,
      \<lparr> lead_id = IdNum 2, nome = ''Rui'', telefone = ''11888888888'', email = [],
        status = ''Novo'', time = ''Geral'', data_entrada = ''2024-05-01T10:00:00'',
        primeira_interacao = Some ''2024-05-01T11:00:00'', origem = ''Site'',
        tem_atendimento = True \<rparr>]) = 1"
  using pendentes_counts_absent [of
     "[\<lparr> lead_id = IdNum 1, nome = ''Ana'', telefone = ''11999999999'', email = [],
        status = ''Novo'', time = ''Geral'', data_entrada = ''2024-05-01T10:00:00'',
        primeira_interacao = None, origem = ''Site'', tem_atendimento = False \<rparr>,
      \<lparr> lead_id = IdNum 2, nome = ''Rui'', telefone = ''11888888888'', email = [],
        status = ''Novo'', time = ''Geral'', data_entrada = ''2024-05-01T10:00:00'',
        primeira_interacao = Some ''2024-05-01T11:00:00'', origem = ''Site'',
        tem_atendimento = True \<rparr>]" "\<lambda>a t. ''0.0''"]
  by simp

section \<open>Date Normalizer: reordering\<close>

lemma not_anchor_slash:
  assumes "digits 2 d"
  shows "\<not> iso_anchor (d @ CHR ''/'' # rest)"
proof -
  from assms obtain a b where d: "d = [a, b]"
    by (cases d; cases "tl d") (auto simp: digits_def)
  show ?thesis by (simp add: d iso_anchor_def is_digit_def)
qed

lemma split_date:
  assumes "digits 2 d" "digits 2 m" "digits 4 y"
  shows "split_js (d @ ''/'' @ m @ ''/'' @ y) CHR ''/'' = [d, m, y]"
  using split_js_sep[of "CHR ''/''" d "m @ ''/'' @ y"] split_js_sep[of "CHR ''/''" m y]
    digits_no_sep(1)[OF assms(1)] digits_no_sep(1)[OF assms(2)] digits_no_sep(1)[OF assms(3)]
  by (simp add: split_js_nosep)

lemma split_time:
  assumes "digits 2 hh" "digits 2 mi"
  shows "split_js (hh @ '':'' @ mi) CHR '':'' = [hh, mi]"
  using split_js_sep[of "CHR '':''" hh mi]
    digits_no_sep(3)[OF assms(1)] digits_no_sep(3)[OF assms(2)]
  by (simp add: split_js_nosep)

lemma split_date_time:
  assumes "digits 2 d" "digits 2 m" "digits 4 y" "digits 2 hh" "digits 2 mi"
  shows "split_js ((d @ ''/'' @ m @ ''/'' @ y) @ '' '' @ hh @ '':'' @ mi) CHR '' '' =
         [d @ ''/'' @ m @ ''/'' @ y, hh @ '':'' @ mi]"
proof -
  have "CHR '' '' \<notin> set (d @ ''/'' @ m @ ''/'' @ y)"
    using digits_no_sep(2)[OF assms(1)] digits_no_sep(2)[OF assms(2)] digits_no_sep(2)[OF assms(3)]
    by simp
  moreover have "CHR '' '' \<notin> set (hh @ '':'' @ mi)"
    using digits_no_sep(2)[OF assms(4)] digits_no_sep(2)[OF assms(5)] by simp
  ultimately show ?thesis
    using split_js_sep[of "CHR '' ''" "d @ ''/'' @ m @ ''/'' @ y" "hh @ '':'' @ mi"]
    by (simp add: split_js_nosep)
qed

lemma split_date_only:
  assumes "digits 2 d" "digits 2 m" "digits 4 y"
  shows "split_js (d @ ''/'' @ m @ ''/'' @ y) CHR '' '' = [d @ ''/'' @ m @ ''/'' @ y]"
  using digits_no_sep(2)[OF assms(1)] digits_no_sep(2)[OF assms(2)] digits_no_sep(2)[OF assms(3)]
  by (simp add: split_js_nosep)

lemma parseDate_date_time:
  assumes "digits 2 d" "digits 2 m" "digits 4 y" "digits 2 hh" "digits 2 mi"
  shows "parseDate (Some (d @ ''/'' @ m @ ''/'' @ y @ '' '' @ hh @ '':'' @ mi)) =
         Some (y @ ''-'' @ m @ ''-'' @ d @ ''T'' @ hh @ '':'' @ mi @ '':00'')"
proof -
  let ?date = "d @ ''/'' @ m @ ''/'' @ y"
  let ?time = "hh @ '':'' @ mi"
  let ?s = "?date @ '' '' @ ?time"
  have ne: "?s \<noteq> []" by simp
  have hd: "hd ?s = hd d" "last ?s = last mi"
    using digits_ends(1)[OF assms(1)] digits_ends(1)[OF assms(5)] by simp_all
  have tr: "trim ?s = ?s"
    using trim_id[OF ne] hd digits_ends(2)[OF assms(1)] digits_ends(3)[OF assms(5)]
    by (simp add: digit_not_space)
  have anch: "\<not> iso_anchor ?s"
    using not_anchor_slash[OF assms(1)] by simp
  have nn: "?date \<noteq> []" "?time \<noteq> []" "hh \<noteq> []" "mi \<noteq> []"
    using digits_ends(1)[OF assms(4)] digits_ends(1)[OF assms(5)] by simp_all
  have "parseDate (Some ?s) = Some (y @ ''-'' @ m @ ''-'' @ d @ ''T'' @ hh @ '':'' @ mi @ '':00'')"
    unfolding parseDate_def
    using ne tr anch nn split_date_time[OF assms] split_date[OF assms(1,2,3)]
      split_time[OF assms(4,5)]
    by (simp add: Let_def at_index_def or_str_def del: append_assoc append.simps)
  then show ?thesis by simp
qed

lemma parseDate_date_only:
  assumes "digits 2 d" "digits 2 m" "digits 4 y"
  shows "parseDate (Some (d @ ''/'' @ m @ ''/'' @ y)) =
         Some (y @ ''-'' @ m @ ''-'' @ d @ ''T00:00:00'')"
proof -
  let ?s = "d @ ''/'' @ m @ ''/'' @ y"
  have ne: "?s \<noteq> []" by simp
  have hd: "hd ?s = hd d" "last ?s = last y"
    using digits_ends(1)[OF assms(1)] digits_ends(1)[OF assms(3)] by simp_all
  have tr: "trim ?s = ?s"
    using trim_id[OF ne] hd digits_ends(2)[OF assms(1)] digits_ends(3)[OF assms(3)]
    by (simp add: digit_not_space)
  have anch: "\<not> iso_anchor ?s"
    using not_anchor_slash[OF assms(1)] by simp
  have t0: "split_js ''00:00'' CHR '':'' = [''00'', ''00'']"
    by (simp add: split_js_def)
  show ?thesis
    unfolding parseDate_def
    using ne tr anch split_date_only[OF assms] split_date[OF assms] t0
    by (simp add: Let_def at_index_def or_str_def del: append_assoc append.simps)
qed

lemma parseImoviewDate_date_time:
  assumes "digits 2 d" "digits 2 m" "digits 4 y" "digits 2 hh" "digits 2 mi"
  shows "parseImoviewDate (JStr (d @ ''/'' @ m @ ''/'' @ y @ '' '' @ hh @ '':'' @ mi)) =
         Some (y @ ''-'' @ m @ ''-'' @ d @ ''T'' @ hh @ '':'' @ mi @ '':00'')"
proof -
  let ?date = "d @ ''/'' @ m @ ''/'' @ y"
  let ?time = "hh @ '':'' @ mi"
  let ?s = "?date @ '' '' @ ?time"
  have "parseImoviewDate (JStr ?s) =
        Some (y @ ''-'' @ m @ ''-'' @ d @ ''T'' @ hh @ '':'' @ mi @ '':00'')"
    unfolding parseImoviewDate_def
    using split_date_time[OF assms] split_date[OF assms(1,2,3)] split_time[OF assms(4,5)]
    by (simp add: Let_def at_index_def or_str_def truthy_str_def template_str_def
          del: append_assoc append.simps)
  then show ?thesis by simp
qed

lemma parseImoviewDate_date_only:
  assumes "digits 2 d" "digits 2 m" "digits 4 y"
  shows "parseImoviewDate (JStr (d @ ''/'' @ m @ ''/'' @ y)) =
         Some (y @ ''-'' @ m @ ''-'' @ d @ ''T00:00:00'')"
  unfolding parseImoviewDate_def
  using split_date_only[OF assms] split_date[OF assms]
  by (simp add: Let_def at_index_def or_str_def truthy_str_def template_str_def
        del: append_assoc append.simps)

text \<open>
  Claim C4. For every input of the form \<open>DD/MM/YYYY HH:mm\<close> (runs of two, two, four, two and
  two digits) \<open>parseDate\<close> and \<open>parseImoviewDate\<close> return \<open>YYYY-MM-DDTHH:mm:00\<close>, and for
  \<open>DD/MM/YYYY\<close> without a time they return \<open>YYYY-MM-DDT00:00:00\<close>.
\<close>

theorem date_normalizer_reorders:
  assumes "digits 2 d" "digits 2 m" "digits 4 y" "digits 2 hh" "digits 2 mi"
  shows "parseDate (Some (d @ ''/'' @ m @ ''/'' @ y @ '' '' @ hh @ '':'' @ mi)) =
           Some (y @ ''-'' @ m @ ''-'' @ d @ ''T'' @ hh @ '':'' @ mi @ '':00'') \<and>
         parseDate (Some (d @ ''/'' @ m @ ''/'' @ y)) =
           Some (y @ ''-'' @ m @ ''-'' @ d @ ''T00:00:00'') \<and>
         parseImoviewDate (JStr (d @ ''/'' @ m @ ''/'' @ y @ '' '' @ hh @ '':'' @ mi)) =
           Some (y @ ''-'' @ m @ ''-'' @ d @ ''T'' @ hh @ '':'' @ mi @ '':00'') \<and>
         parseImoviewDate (JStr (d @ ''/'' @ m @ ''/'' @ y)) =
           Some (y @ ''-'' @ m @ ''-'' @ d @ ''T00:00:00'')"
  using parseDate_date_time[OF assms] parseDate_date_only[OF assms(1,2,3)]
    parseImoviewDate_date_time[OF assms] parseImoviewDate_date_only[OF assms(1,2,3)]
  by simp

text \<open>The example of the specification: \<open>25/12/2024 14:30\<close> becomes \<open>2024-12-25T14:30:00\<close>.\<close>

theorem date_normalizer_reorders_witness:
  "parseDate (Some ''25/12/2024 14:30'') = Some ''2024-12-25T14:30:00'' \<and>
   parseDate (Some ''25/12/2024'') = Some ''2024-12-25T00:00:00'' \<and>
   parseImoviewDate (JStr ''25/12/2024 14:30'') = Some ''2024-12-25T14:30:00'' \<and>
   parseImoviewDate (JStr ''25/12/2024'') = Some ''2024-12-25T00:00:00''"
  using date_normalizer_reorders [of "''25''" "''12''" "''2024''" "''14''" "''30''"]
  by (simp add: digits_def is_digit_def)

section \<open>Date Normalizer: input already in ISO form\<close>

lemma iso_anchor_take: "11 \<le> length s \<Longrightarrow> iso_anchor (take 11 s) = iso_anchor s"
  by (simp add: iso_anchor_def drop_take)

lemma iso_anchor_append:
  assumes "iso_anchor (take 11 s)" "11 \<le> length s"
  shows "iso_anchor (take 11 s @ ys)"
proof -
  have "take 11 (take 11 s @ ys) = take 11 s" using assms(2) by simp
  moreover have "11 \<le> length (take 11 s @ ys)" using assms(2) by simp
  ultimately show ?thesis using iso_anchor_take[of "take 11 s @ ys"] iso_anchor_take[of "take 11 s"] assms
    by simp
qed

lemma anchor_ends:
  assumes "iso_anchor s"
  shows "s \<noteq> []" "\<not> is_space (hd s)" "\<not> is_space (s ! 10)" "11 \<le> length s"
proof -
  show len: "11 \<le> length s" using assms by (simp add: iso_anchor_def)
  then show "s \<noteq> []" by auto
  have "is_digit (hd s)" using assms len by (cases s) (auto simp: iso_anchor_def)
  then show "\<not> is_space (hd s)" by (rule digit_not_space)
  have "s ! 10 = CHR ''T''" using assms by (simp add: iso_anchor_def)
  then show "\<not> is_space (s ! 10)" by (simp add: is_space_def)
qed

lemma trim_anchor:
  assumes "iso_anchor s"
  shows "\<exists>ys. trim s = take 11 s @ ys"
proof -
  let ?p = "take 11 s" and ?r = "drop 11 s"
  note e = anchor_ends[OF assms]
  have lp: "length ?p = 11" using e(4) by simp
  have pne: "?p \<noteq> []" using lp by auto
  have "last ?p = ?p ! (length ?p - 1)" using pne by (rule last_conv_nth)
  then have lastp: "last ?p = s ! 10" using lp by simp
  have d1: "dropWhile is_space s = s" using e(1,2) by (rule dropWhile_hd_id)
  have "rev s = rev ?r @ rev ?p" by (metis append_take_drop_id rev_append)
  moreover have "dropWhile is_space (rev ?p) = rev ?p"
    using pne lastp e(3) by (simp add: dropWhile_hd_id hd_rev)
  ultimately have "\<exists>xs. dropWhile is_space (rev s) = xs @ rev ?p"
    by (metis append_Nil dropWhile_append)
  then obtain xs where "dropWhile is_space (rev s) = xs @ rev ?p" by blast
  then have "trim s = ?p @ rev xs" by (simp add: trim_def d1)
  then show ?thesis by blast
qed

lemma trim_keeps_anchor: "iso_anchor s \<Longrightarrow> iso_anchor (trim s)"
  using trim_anchor[of s] iso_anchor_append[of s] anchor_ends(4)[of s] iso_anchor_take[of s]
  by auto

lemma parseDate_anchored_trim: "iso_anchor (trim s) \<Longrightarrow> parseDate (Some s) = Some (trim s)"
proof -
  assume a: "iso_anchor (trim s)"
  then have "trim s \<noteq> []" by (rule anchor_ends(1))
  moreover from this have "s \<noteq> []" by (auto simp: trim_def)
  ultimately show ?thesis using a by (simp add: parseDate_def Let_def)
qed

lemma trim_eq_self_iff:
  assumes "s \<noteq> []" "\<not> is_space (hd s)"
  shows "(trim s = s) = (\<not> is_space (last s))"
proof
  assume "\<not> is_space (last s)"
  then show "trim s = s" using assms by (simp add: trim_id)
next
  assume t: "trim s = s"
  show "\<not> is_space (last s)"
  proof
    assume sp: "is_space (last s)"
    have "dropWhile is_space s = s" using assms by (rule dropWhile_hd_id)
    then have "trim s = rev (dropWhile is_space (rev s))" by (simp add: trim_def)
    moreover have "length (dropWhile is_space (rev s)) < length (rev s)"
      using assms(1) sp by (cases "rev s") (auto simp: hd_rev[symmetric] intro: le_imp_less_Suc length_dropWhile_le)
    ultimately have "length (trim s) < length s" by simp
    then show False using t by simp
  qed
qed

text \<open>
  Claim C5, as stated, fails: an input that matches the anchor and ends in a space is
  returned without the space, since \<open>parseDate\<close> trims before it tests the anchor.
\<close>

theorem iso_input_not_unchanged:
  "iso_anchor ''2024-12-25T14:30:00 '' \<and>
   parseDate (Some ''2024-12-25T14:30:00 '') = Some ''2024-12-25T14:30:00'' \<and>
   parseDate (Some ''2024-12-25T14:30:00 '') \<noteq> Some ''2024-12-25T14:30:00 ''"
  by (simp add: parseDate_def trim_def is_space_def iso_anchor_def is_digit_def)

text \<open>
  Claim C5, amended. When the trimmed input matches the anchor, \<open>parseDate\<close> returns the
  trimmed input. An input that itself matches the anchor is returned with its trailing
  white space removed, so it is returned unchanged exactly when it does not end in white
  space.
\<close>

theorem date_normalizer_iso_trimmed:
  "(iso_anchor (trim s) \<longrightarrow> parseDate (Some s) = Some (trim s)) \<and>
   (iso_anchor s \<longrightarrow>
      parseDate (Some s) = Some (trim s) \<and>
      ((parseDate (Some s) = Some s) = (\<not> is_space (last s))))"
proof -
  have "parseDate (Some s) = Some (trim s) \<and>
        ((parseDate (Some s) = Some s) = (\<not> is_space (last s)))" if a: "iso_anchor s"
  proof -
    have p: "parseDate (Some s) = Some (trim s)"
      using trim_keeps_anchor[OF a] by (rule parseDate_anchored_trim)
    show ?thesis using p trim_eq_self_iff[OF anchor_ends(1,2)[OF a]] by simp
  qed
  then show ?thesis using parseDate_anchored_trim by blast
qed

text \<open>An ISO timestamp between spaces loses them; one without spaces is returned as it is.\<close>

theorem date_normalizer_iso_trimmed_witness:
  "parseDate (Some '' 2024-12-25T14:30:00Z '') = Some ''2024-12-25T14:30:00Z'' \<and>
   parseDate (Some ''2024-12-25T14:30:00Z'') = Some ''2024-12-25T14:30:00Z''"
  using date_normalizer_iso_trimmed [of "'' 2024-12-25T14:30:00Z ''"]
    date_normalizer_iso_trimmed [of "''2024-12-25T14:30:00Z''"]
  by (simp add: trim_def is_space_def iso_anchor_def is_digit_def)

section \<open>Date Normalizer: null on garbage\<close>

lemma split_acc_not_Nil: "split_acc c acc s \<noteq> []"
  by (induction s arbitrary: acc) auto

lemma first_piece: "or_str (at_index (split_js s c) 0) [] = hd (split_js s c)"
  using split_acc_not_Nil[of c "[]" s]
  by (cases "split_js s c") (auto simp: split_js_def at_index_def or_str_def)

lemma trim_Nil_iff: "(trim s = []) = list_all is_space s"
proof
  assume "trim s = []"
  then have "dropWhile is_space (rev (dropWhile is_space s)) = []"
    by (simp add: trim_def)
  then have all: "\<forall>x \<in> set (dropWhile is_space s). is_space x"
    by (simp add: dropWhile_eq_Nil_conv)
  have "dropWhile is_space s = []"
  proof (rule ccontr)
    assume ne: "dropWhile is_space s \<noteq> []"
    then have "\<not> is_space (hd (dropWhile is_space s))" by (rule hd_dropWhile)
    moreover have "hd (dropWhile is_space s) \<in> set (dropWhile is_space s)"
      using ne by simp
    ultimately show False using all by blast
  qed
  then show "list_all is_space s"
    by (simp add: dropWhile_eq_Nil_conv list_all_iff)
next
  assume "list_all is_space s"
  then have h: "dropWhile is_space s = []"
    by (induction s) auto
  show "trim s = []" by (simp only: trim_def h dropWhile.simps rev.simps)
qed

lemma parseDate_Some_None_iff:
  "(parseDate (Some s) = None) =
     (list_all is_space s \<or>
      (\<not> iso_anchor (trim s) \<and>
       length (split_js (hd (split_js (trim s) CHR '' '')) CHR ''/'') \<noteq> 3))"
proof (cases "trim s = []")
  case True
  then show ?thesis by (auto simp: parseDate_def trim_Nil_iff)
next
  case False
  then have s: "s \<noteq> []" "\<not> list_all is_space s"
    by (auto simp: trim_Nil_iff)
  show ?thesis
  proof (cases "iso_anchor (trim s)")
    case True
    then show ?thesis using False s by (simp add: parseDate_def Let_def)
  next
    case na: False
    show ?thesis
      unfolding parseDate_def using False s na
      by (simp add: Let_def first_piece split: list.splits)
  qed
qed

lemma hd_split_acc: "hd (split_acc c acc s) = rev acc @ takeWhile (\<lambda>x. x \<noteq> c) s"
  by (induction s arbitrary: acc) auto

lemma hd_split_js: "hd (split_js s c) = takeWhile (\<lambda>x. x \<noteq> c) s"
  by (simp add: split_js_def hd_split_acc)

lemma length_split_acc: "length (split_acc c acc s) = Suc (count_list s c)"
  by (induction s arbitrary: acc) auto

lemma length_split_js: "length (split_js s c) = Suc (count_list s c)"
  by (simp add: split_js_def length_split_acc)

text \<open>
  Claim C6. \<open>parseDate\<close> returns \<open>null\<close> exactly when the input is \<open>undefined\<close>, empty or
  white space only, or when, after trimming, it neither matches the ISO anchor nor has a
  date part (the text before the first space) of exactly three components separated by
  \<open>/\<close>, that is, with exactly two \<open>/\<close>. So it never returns a string for such an input.
\<close>

theorem date_normalizer_null_on_garbage:
  "(parseDate input = None) =
     (case input of
        None \<Rightarrow> True
      | Some s \<Rightarrow>
          list_all is_space s \<or>
          (\<not> iso_anchor (trim s) \<and>
           count_list (takeWhile (\<lambda>c. c \<noteq> CHR '' '') (trim s)) CHR ''/'' \<noteq> 2))"
proof (cases input)
  case None
  then show ?thesis by (simp add: parseDate_def)
next
  case (Some s)
  then show ?thesis by (simp add: parseDate_Some_None_iff hd_split_js length_split_js)
qed

text \<open>
  The empty string, a string of spaces, plain words, a date part of two components and
  \<open>undefined\<close> all give \<open>null\<close>.
\<close>

theorem date_normalizer_null_on_garbage_witness:
  "parseDate (Some []) = None \<and> parseDate (Some ''   '') = None \<and>
   parseDate (Some ''amanha cedo'') = None \<and> parseDate (Some ''12/2024 10:00'') = None \<and>
   parseDate None = None"
  using date_normalizer_null_on_garbage [of "Some []"]
    date_normalizer_null_on_garbage [of "Some ''   ''"]
    date_normalizer_null_on_garbage [of "Some ''amanha cedo''"]
    date_normalizer_null_on_garbage [of "Some ''12/2024 10:00''"]
    date_normalizer_null_on_garbage [of None]
  by (simp add: is_space_def trim_def iso_anchor_def)

section \<open>List Extractor: priority of the wrapper keys\<close>

lemma first_array_find:
  "first_array obj keys =
     (case find (\<lambda>k. is_array (getProp obj k)) keys of
        Some k \<Rightarrow> array_items (getProp obj k)
      | None \<Rightarrow> [])"
  by (induction keys) (auto simp: is_array_def array_items_def split: jsval.splits)

lemma getProp_non_object: "\<not> truthy data \<Longrightarrow> getProp data k = JUndefined"
  by (cases data) (auto simp: getProp_def)

lemma find_none_falsy:
  "\<not> truthy data \<Longrightarrow> find (\<lambda>k. is_array (getProp data k)) keys = None"
  by (induction keys) (auto simp: getProp_non_object is_array_def)

text \<open>
  Claim C3, as stated, fails for the extractor of \<open>proxy-leads\<close>: it does not look at
  \<open>leads\<close> (nor at \<open>items\<close> and \<open>data\<close>), so a payload that wraps its list in \<open>leads\<close> gives
  the empty list there, while the extractor of \<open>proxy-leads-all\<close> finds the list.
\<close>

theorem proxy_leads_extractor_lacks_keys:
  "extractList (JObj [(''leads'', JArr [JStr ''a'']), (''total'', JNum 1)]) = [JStr ''a''] \<and>
   extractList_proxy_leads (JObj [(''leads'', JArr [JStr ''a'']), (''total'', JNum 1)]) = []"
  by (simp add: extractList_def extractList_proxy_leads_def candidates_def getProp_def
        is_array_def array_items_def)

text \<open>
  Claim C3, amended. Both extractors return an array payload itself and the empty list
  for \<open>null\<close> and \<open>undefined\<close>. On any other payload the extractor of \<open>proxy-leads-all\<close>
  returns the value of the first of \<open>lista\<close>, \<open>leads\<close>, \<open>atendimentos\<close>, \<open>items\<close>, \<open>resultado\<close>,
  \<open>data\<close> that holds an array, and the extractor of \<open>proxy-leads\<close> the value of the first of
  \<open>lista\<close>, \<open>atendimentos\<close>, \<open>resultado\<close> that holds an array; the empty list when none
  does.
\<close>

theorem list_extractors_priority:
  "extractList (JArr xs) = xs \<and>
   extractList_proxy_leads (JArr xs) = xs \<and>
   extractList JNull = [] \<and> extractList JUndefined = [] \<and>
   extractList_proxy_leads JNull = [] \<and> extractList_proxy_leads JUndefined = [] \<and>
   (\<not> is_array data \<longrightarrow>
      extractList data =
        (case find (\<lambda>k. is_array (getProp data k))
                [''lista'', ''leads'', ''atendimentos'', ''items'', ''resultado'', ''data''] of
           Some k \<Rightarrow> array_items (getProp data k)
         | None \<Rightarrow> []) \<and>
      extractList_proxy_leads data =
        (case find (\<lambda>k. is_array (getProp data k)) [''lista'', ''atendimentos'', ''resultado''] of
           Some k \<Rightarrow> array_items (getProp data k)
         | None \<Rightarrow> []))"
proof -
  have arr: "extractList (JArr xs) = xs" "extractList_proxy_leads (JArr xs) = xs"
    by (simp_all add: extractList_def extractList_proxy_leads_def is_array_def array_items_def)
  have nul: "extractList JNull = []" "extractList JUndefined = []"
    "extractList_proxy_leads JNull = []" "extractList_proxy_leads JUndefined = []"
    by (simp_all add: extractList_def extractList_proxy_leads_def)
  have a: "extractList data =
        (case find (\<lambda>k. is_array (getProp data k))
                [''lista'', ''leads'', ''atendimentos'', ''items'', ''resultado'', ''data''] of
           Some k \<Rightarrow> array_items (getProp data k)
         | None \<Rightarrow> [])" if na: "\<not> is_array data"
  proof (cases "truthy data")
    case True
    then have "extractList data = first_array data candidates"
      using na by (cases data) (simp_all add: extractList_def is_array_def)
    then show ?thesis by (simp only: first_array_find candidates_def)
  next
    case False
    then show ?thesis
      using find_none_falsy[OF False] by (simp add: extractList_def)
  qed
  have b: "extractList_proxy_leads data =
        (case find (\<lambda>k. is_array (getProp data k)) [''lista'', ''atendimentos'', ''resultado''] of
           Some k \<Rightarrow> array_items (getProp data k)
         | None \<Rightarrow> [])" if na: "\<not> is_array data"
  proof (cases "truthy data")
    case True
    then show ?thesis using na by (simp add: extractList_proxy_leads_def)
  next
    case False
    then show ?thesis
      using find_none_falsy[OF False] by (simp add: extractList_proxy_leads_def)
  qed
  show ?thesis using arr nul a b by blast
qed

text \<open>
  \<open>leads\<close> wins over \<open>data\<close> although \<open>data\<close> comes first in the object, and \<open>lista\<close> is passed
  over when it is not an array; in \<open>proxy-leads\<close>, \<open>atendimentos\<close> wins over \<open>resultado\<close>.
\<close>

theorem list_extractors_priority_witness:
  "extractList (JObj [(''data'', JArr [JNum 1]), (''total'', JNum 3),
                      (''leads'', JArr [JNum 2]), (''lista'', JStr ''x'')]) = [JNum 2] \<and>
   extractList_proxy_leads (JObj [(''resultado'', JArr [JNum 1]),
                                  (''atendimentos'', JArr [JNum 2])]) = [JNum 2]"
  using list_extractors_priority [of "[]" "JObj [(''data'', JArr [JNum 1]), (''total'', JNum 3),
                      (''leads'', JArr [JNum 2]), (''lista'', JStr ''x'')]"]
    list_extractors_priority [of "[]" "JObj [(''resultado'', JArr [JNum 1]),
                                  (''atendimentos'', JArr [JNum 2])]"]
  by (simp add: is_array_def array_items_def getProp_def)

section \<open>Lead Normalizer: the phone\<close>

lemma or_s_chain3: "or_s a (or_s b (or_s c [])) = first_non_empty [a, b, c]"
  by (simp add: or_s_def first_non_empty_def)

lemma or_s_chain4: "or_s a (or_s b (or_s c (or_s d []))) = first_non_empty [a, b, c, d]"
  by (simp add: or_s_def first_non_empty_def)

lemma mapAtendimento_telefone:
  "\<not> is_nullish item \<Longrightarrow>
   \<exists>a. mapAtendimento r t item = Inr a \<and>
       telefone a = first_non_empty [getStr (leadObj_of item) ''telefone1'',
                      getStr (leadObj_of item) ''celular'', getStr item ''telefone'']"
  by (simp add: mapAtendimento_def Let_def or_s_chain3)

lemma mapBruto_telefone:
  "\<not> is_nullish item \<Longrightarrow>
   \<exists>b. mapBruto r t item = Inr b \<and>
       telefone b = first_non_empty [getStr item ''telefone1'', getStr item ''celular'',
                      getStr item ''telefone'', getStr item ''phone'']"
  by (simp add: mapBruto_def Let_def or_s_chain4)

text \<open>
  Claim C7, as stated, fails: the chain of the claim is the chain of neither normalizer.
  \<open>mapAtendimento\<close> never reads the top-level \<open>phone\<close>, and \<open>mapBruto\<close> never reads the nested
  lead.
\<close>

theorem phone_chain_differs_per_variant:
  "mapAtendimento ''0.5'' ''2026-01-01T00:00:00.000Z'' (JObj [(''phone'', JStr ''11999999999'')]) =
     Inr \<lparr> lead_id = IdStr ''0.5'', nome = ''Sem Nome'', telefone = [], email = [],
           status = ''Novo'', time = ''Geral'', data_entrada = ''2026-01-01T00:00:00.000Z'',
           primeira_interacao = None, origem = ''Site'', tem_atendimento = True \<rparr> \<and>
   mapBruto ''0.5'' ''2026-01-01T00:00:00.000Z''
       (JObj [(''lead'', JObj [(''telefone1'', JStr ''11999999999'')])]) =
     Inr \<lparr> lead_id = IdStr ''0.5'', nome = ''Sem Nome'', telefone = [], email = [],
           status = ''Novo'', time = ''Geral'', data_entrada = ''2026-01-01T00:00:00.000Z'',
           primeira_interacao = None, origem = ''Site'', tem_atendimento = False \<rparr>"
  by (simp add: mapAtendimento_def mapBruto_def Let_def is_nullish_def leadObj_of_def or_js_def
        getProp_def getStr_def getNumOrStr_def nullish_or_def or_s_def or_str_def or_opt_def
        truthy_str_def parseDate_def)

text \<open>
  Claim C7, amended. For every record that is not \<open>null\<close> or \<open>undefined\<close> both normalizers
  return a lead. The phone of \<open>mapAtendimento\<close> is the first non-empty string of the nested
  lead's \<open>telefone1\<close>, the nested lead's \<open>celular\<close> and the top-level \<open>telefone\<close>; the phone of
  \<open>mapBruto\<close> is the first non-empty string of the top-level \<open>telefone1\<close>, \<open>celular\<close>,
  \<open>telefone\<close> and \<open>phone\<close>; the empty string when there is none. In particular an attendance
  record whose nested lead has a non-empty \<open>telefone1\<close> gets that phone.
\<close>

theorem phone_fallback_chains:
  assumes "\<not> is_nullish item"
  shows "\<exists>a b. mapAtendimento r t item = Inr a \<and> mapBruto r t item = Inr b \<and>
           telefone a = first_non_empty [getStr (leadObj_of item) ''telefone1'',
                          getStr (leadObj_of item) ''celular'', getStr item ''telefone''] \<and>
           telefone b = first_non_empty [getStr item ''telefone1'', getStr item ''celular'',
                          getStr item ''telefone'', getStr item ''phone''] \<and>
           (getStr (leadObj_of item) ''telefone1'' \<noteq> [] \<longrightarrow>
              telefone a = getStr (leadObj_of item) ''telefone1'')"
  using mapAtendimento_telefone[OF assms, of r t] mapBruto_telefone[OF assms, of r t]
  by (auto simp: first_non_empty_def)

text \<open>The example of the specification: \<open>lead.telefone1 = "11999999999"\<close>.\<close>

theorem phone_fallback_chains_witness:
  "\<exists>a. mapAtendimento ''0.5'' ''2026-01-01T00:00:00.000Z''
          (JObj [(''codigo'', JNum 7),
                 (''lead'', JObj [(''nome'', JStr ''Ana''), (''telefone1'', JStr ''11999999999'')])])
        = Inr a \<and> telefone a = ''11999999999''"
  using phone_fallback_chains [of
      "JObj [(''codigo'', JNum 7),
             (''lead'', JObj [(''nome'', JStr ''Ana''), (''telefone1'', JStr ''11999999999'')])]"
      "''0.5''" "''2026-01-01T00:00:00.000Z''"]
  by (auto simp: is_nullish_def leadObj_of_def or_js_def getProp_def getStr_def)

section \<open>Lead Normalizer: the dates\<close>

lemma parseDate_shaped: "parseDate x = Some s \<Longrightarrow> date_shaped s"
proof -
  assume a: "parseDate x = Some s"
  then obtain inp where x: "x = Some inp" by (cases x) (auto simp: parseDate_def)
  show ?thesis
  proof (cases "iso_anchor (trim inp)")
    case True
    then have "trim inp \<noteq> []" by (auto simp: iso_anchor_def)
    then show ?thesis using a x True
      by (auto simp: parseDate_def Let_def date_shaped_def split: if_splits)
  next
    case False
    then obtain y m d hh mi where
      "s = y @ ''-'' @ m @ ''-'' @ d @ ''T'' @ hh @ '':'' @ mi @ '':00''"
      using a x by (auto simp: parseDate_def Let_def split: if_splits list.splits)
    then show ?thesis unfolding date_shaped_def reassembled_def by blast
  qed
qed

lemma or_opt_parseDate:
  "or_opt (parseDate x) (parseDate y) = None \<or>
   (\<exists>s. or_opt (parseDate x) (parseDate y) = Some s \<and> date_shaped s)"
  by (cases "parseDate x"; cases "parseDate y")
     (auto simp: or_opt_def truthy_str_def dest: parseDate_shaped)

lemma or_str_parseDate:
  "or_str (or_opt (parseDate x) (parseDate y)) t = t \<or>
   date_shaped (or_str (or_opt (parseDate x) (parseDate y)) t)"
  using or_opt_parseDate[of x y]
  by (auto simp: or_str_def date_shaped_def)

lemma primeira_shape:
  "or_opt (or_opt (or_opt (parseDate x) (parseDate y)) None) None = None \<or>
   (\<exists>p. or_opt (or_opt (or_opt (parseDate x) (parseDate y)) None) None = Some p \<and> date_shaped p)"
  using or_opt_parseDate[of x y]
  by (auto simp: or_opt_def truthy_str_def)

lemma anchor_reordered:
  assumes "digits 4 y" "digits 2 m" "digits 2 d"
  shows "iso_anchor (y @ ''-'' @ m @ ''-'' @ d @ ''T'' @ rest)"
proof -
  from assms(1) obtain y1 y2 y3 y4 where y: "y = [y1, y2, y3, y4]"
    by (cases y; cases "tl y"; cases "tl (tl y)"; cases "tl (tl (tl y))") (auto simp: digits_def)
  from assms(2) obtain m1 m2 where m: "m = [m1, m2]"
    by (cases m; cases "tl m") (auto simp: digits_def)
  from assms(3) obtain d1 d2 where d: "d = [d1, d2]"
    by (cases d; cases "tl d") (auto simp: digits_def)
  show ?thesis using assms by (simp add: y m d iso_anchor_def digits_def)
qed

lemma mapAtendimento_dates:
  assumes "\<not> is_nullish item"
  shows "\<exists>a. mapAtendimento r t item = Inr a \<and>
           data_entrada a =
             or_str (or_opt (parseDate (Some (getStr item ''datahoraentradalead'')))
                            (parseDate (Some (getStr item ''data_entrada'')))) t \<and>
           primeira_interacao a =
             or_opt (or_opt (or_opt (parseDate (Some (getStr item ''datahoraultimainteracao'')))
                                    (parseDate (Some (getStr item ''primeira_interacao''))))
                            None) None"
  using assms by (simp add: mapAtendimento_def Let_def)

lemma mapBruto_dates:
  assumes "\<not> is_nullish item"
  shows "\<exists>b. mapBruto r t item = Inr b \<and>
           data_entrada b =
             or_str (or_opt (parseDate (Some (getStr item ''data_criacao'')))
                            (parseDate (Some (getStr item ''datahoraentradalead'')))) t \<and>
           primeira_interacao b = None"
  using assms by (simp add: mapBruto_def Let_def)

lemma first_date_wins:
  "parseDate x = Some s \<Longrightarrow> or_str (or_opt (parseDate x) other) t = s"
  using parseDate_shaped[of x s]
  by (simp add: or_str_def or_opt_def truthy_str_def date_shaped_def)

lemma entrada_chain_case:
  "or_str (or_opt (parseDate x) (parseDate y)) t =
     (case parseDate x of
        Some s \<Rightarrow> s
      | None \<Rightarrow> (case parseDate y of Some s \<Rightarrow> s | None \<Rightarrow> t))"
proof (cases "parseDate x")
  case None
  then show ?thesis
  proof (cases "parseDate y")
    case None
    with \<open>parseDate x = None\<close> show ?thesis
      by (simp add: or_str_def or_opt_def truthy_str_def)
  next
    case (Some s)
    then have "s \<noteq> []" using parseDate_shaped[of y s] by (simp add: date_shaped_def)
    with Some \<open>parseDate x = None\<close> show ?thesis
      by (simp add: or_str_def or_opt_def truthy_str_def)
  qed
next
  case (Some s)
  then have "s \<noteq> []" using parseDate_shaped[of x s] by (simp add: date_shaped_def)
  with Some show ?thesis by (simp add: or_str_def or_opt_def truthy_str_def)
qed

lemma primeira_chain_case:
  "or_opt (or_opt (or_opt (parseDate x) (parseDate y)) None) None =
     (case parseDate x of Some s \<Rightarrow> Some s | None \<Rightarrow> parseDate y)"
proof (cases "parseDate x")
  case None
  then show ?thesis
  proof (cases "parseDate y")
    case None
    with \<open>parseDate x = None\<close> show ?thesis by (simp add: or_opt_def truthy_str_def)
  next
    case (Some s)
    then have "s \<noteq> []" using parseDate_shaped[of y s] by (simp add: date_shaped_def)
    with Some \<open>parseDate x = None\<close> show ?thesis by (simp add: or_opt_def truthy_str_def)
  qed
next
  case (Some s)
  then have "s \<noteq> []" using parseDate_shaped[of x s] by (simp add: date_shaped_def)
  with Some show ?thesis by (simp add: or_opt_def truthy_str_def)
qed

lemma or_str_not_empty: "b \<noteq> [] \<Longrightarrow> or_str a b \<noteq> []"
  by (cases a) (auto simp: or_str_def)

lemma parseDate_result:
  assumes "parseDate (Some x) = Some s"
  shows "if iso_anchor (trim x) then s = trim x
         else \<exists>d m y hh mi.
                split_js (takeWhile (\<lambda>c. c \<noteq> CHR '' '') (trim x)) CHR ''/'' = [d, m, y] \<and>
                hh \<noteq> [] \<and> mi \<noteq> [] \<and>
                s = y @ ''-'' @ m @ ''-'' @ d @ ''T'' @ hh @ '':'' @ mi @ '':00''"
proof (cases "iso_anchor (trim x)")
  case True
  then show ?thesis using assms parseDate_anchored_trim[OF True] by simp
next
  case False
  let ?parts = "split_js (trim x) CHR '' ''"
  let ?tp = "or_str (at_index ?parts 1) ''00:00''"
  let ?hm = "split_js ?tp CHR '':''"
  from assms False obtain d m y where
    dmy: "split_js (hd ?parts) CHR ''/'' = [d, m, y]"
    and s: "s = y @ ''-'' @ m @ ''-'' @ d @ ''T'' @ or_str (at_index ?hm 0) ''00'' @ '':'' @
              or_str (at_index ?hm 1) ''00'' @ '':00''"
    by (auto simp: parseDate_def Let_def first_piece split: if_splits list.splits)
  have "or_str (at_index ?hm 0) ''00'' \<noteq> []" "or_str (at_index ?hm 1) ''00'' \<noteq> []"
    by (simp_all add: or_str_not_empty)
  then show ?thesis using False dmy s unfolding hd_split_js by auto
qed

text \<open>
  Claim C9, as stated, fails: the normalizers do not validate what they reassemble. An
  entry date with a day and a month of one digit gives a \<open>data_entrada\<close> that does not even
  match the anchor \<open>YYYY-MM-DDT\<close>.
\<close>

theorem data_entrada_can_be_malformed:
  "mapAtendimento ''0.5'' ''2026-01-01T00:00:00.000Z''
       (JObj [(''codigo'', JNum 7), (''datahoraentradalead'', JStr ''1/2/2024'')]) =
     Inr \<lparr> lead_id = IdNum 7, nome = ''Sem Nome'', telefone = [], email = [],
           status = ''Novo'', time = ''Geral'', data_entrada = ''2024-2-1T00:00:00'',
           primeira_interacao = None, origem = ''Site'', tem_atendimento = True \<rparr> \<and>
   \<not> iso_anchor ''2024-2-1T00:00:00''"
  by (simp add: mapAtendimento_def Let_def is_nullish_def leadObj_of_def or_js_def
        getProp_def getStr_def getNumOrStr_def nullish_or_def or_s_def or_str_def or_opt_def
        truthy_str_def parseDate_def trim_def is_space_def iso_anchor_def is_digit_def
        split_js_def at_index_def)

text \<open>
  Claim C9, amended. For every record that is not \<open>null\<close> or \<open>undefined\<close> both normalizers
  return a lead, and its \<open>data_entrada\<close> is never missing. The first entry-date field that
  \<open>parseDate\<close> parses decides it: \<open>datahoraentradalead\<close>, then \<open>data_entrada\<close> for an attendance;
  \<open>data_criacao\<close>, then \<open>datahoraentradalead\<close> for a raw lead; the current time when neither
  parses. \<open>primeira_interacao\<close> of an attendance is the parse of \<open>datahoraultimainteracao\<close>,
  else of \<open>primeira_interacao\<close>, else absent; it is always absent for a raw lead. What
  \<open>parseDate\<close> returns is not validated: a non-empty string that is the trimmed input when
  that matches the ISO anchor, and otherwise \<open>y-m-dTh:mi:00\<close> with \<open>d\<close>, \<open>m\<close>, \<open>y\<close> the three
  pieces between the \<open>/\<close> of the input's date part (the text before the first space) and
  \<open>h\<close>, \<open>mi\<close> not empty. When \<open>datahoraentradalead\<close> has the form \<open>DD/MM/YYYY HH:mm\<close>, the
  \<open>data_entrada\<close> of \<open>mapAtendimento\<close> is \<open>YYYY-MM-DDTHH:mm:00\<close>.
\<close>

theorem normalized_dates_by_key:
  assumes "\<not> is_nullish item"
  shows "\<exists>a b. mapAtendimento r t item = Inr a \<and> mapBruto r t item = Inr b \<and>
           data_entrada a =
             (case parseDate (Some (getStr item ''datahoraentradalead'')) of
                Some s \<Rightarrow> s
              | None \<Rightarrow>
                  (case parseDate (Some (getStr item ''data_entrada'')) of
                     Some s \<Rightarrow> s
                   | None \<Rightarrow> t)) \<and>
           data_entrada b =
             (case parseDate (Some (getStr item ''data_criacao'')) of
                Some s \<Rightarrow> s
              | None \<Rightarrow>
                  (case parseDate (Some (getStr item ''datahoraentradalead'')) of
                     Some s \<Rightarrow> s
                   | None \<Rightarrow> t)) \<and>
           primeira_interacao a =
             (case parseDate (Some (getStr item ''datahoraultimainteracao'')) of
                Some s \<Rightarrow> Some s
              | None \<Rightarrow> parseDate (Some (getStr item ''primeira_interacao''))) \<and>
           primeira_interacao b = None \<and>
           (parseDate (Some x) = Some s \<longrightarrow>
              s \<noteq> [] \<and>
              (if iso_anchor (trim x) then s = trim x
               else \<exists>d' m' y' hh' mi'.
                      split_js (takeWhile (\<lambda>c. c \<noteq> CHR '' '') (trim x)) CHR ''/'' =
                        [d', m', y'] \<and>
                      hh' \<noteq> [] \<and> mi' \<noteq> [] \<and>
                      s = y' @ ''-'' @ m' @ ''-'' @ d' @ ''T'' @ hh' @ '':'' @ mi' @ '':00'')) \<and>
           (data_entrada a = t \<or> date_shaped (data_entrada a)) \<and>
           (data_entrada b = t \<or> date_shaped (data_entrada b)) \<and>
           (primeira_interacao a = None \<or>
              (\<exists>p. primeira_interacao a = Some p \<and> date_shaped p)) \<and>
           (digits 2 d \<and> digits 2 m \<and> digits 4 y \<and> digits 2 hh \<and> digits 2 mi \<and>
            getStr item ''datahoraentradalead'' = d @ ''/'' @ m @ ''/'' @ y @ '' '' @ hh @ '':'' @ mi
            \<longrightarrow> data_entrada a = y @ ''-'' @ m @ ''-'' @ d @ ''T'' @ hh @ '':'' @ mi @ '':00'' \<and>
                iso_anchor (data_entrada a))"
proof -
  from mapAtendimento_dates[OF assms, of r t] obtain a where
    a: "mapAtendimento r t item = Inr a"
    and ea: "data_entrada a =
             or_str (or_opt (parseDate (Some (getStr item ''datahoraentradalead'')))
                            (parseDate (Some (getStr item ''data_entrada'')))) t"
    and pa: "primeira_interacao a =
             or_opt (or_opt (or_opt (parseDate (Some (getStr item ''datahoraultimainteracao'')))
                                    (parseDate (Some (getStr item ''primeira_interacao''))))
                            None) None"
    by blast
  from mapBruto_dates[OF assms, of r t] obtain b where
    b: "mapBruto r t item = Inr b"
    and eb: "data_entrada b =
             or_str (or_opt (parseDate (Some (getStr item ''data_criacao'')))
                            (parseDate (Some (getStr item ''datahoraentradalead'')))) t"
    and pb: "primeira_interacao b = None"
    by blast
  have ca: "data_entrada a =
             (case parseDate (Some (getStr item ''datahoraentradalead'')) of
                Some s \<Rightarrow> s
              | None \<Rightarrow>
                  (case parseDate (Some (getStr item ''data_entrada'')) of
                     Some s \<Rightarrow> s
                   | None \<Rightarrow> t))"
    unfolding ea by (rule entrada_chain_case)
  have cb: "data_entrada b =
             (case parseDate (Some (getStr item ''data_criacao'')) of
                Some s \<Rightarrow> s
              | None \<Rightarrow>
                  (case parseDate (Some (getStr item ''datahoraentradalead'')) of
                     Some s \<Rightarrow> s
                   | None \<Rightarrow> t))"
    unfolding eb by (rule entrada_chain_case)
  have cp: "primeira_interacao a =
             (case parseDate (Some (getStr item ''datahoraultimainteracao'')) of
                Some s \<Rightarrow> Some s
              | None \<Rightarrow> parseDate (Some (getStr item ''primeira_interacao'')))"
    unfolding pa by (rule primeira_chain_case)
  have res: "s \<noteq> [] \<and>
              (if iso_anchor (trim x) then s = trim x
               else \<exists>d' m' y' hh' mi'.
                      split_js (takeWhile (\<lambda>c. c \<noteq> CHR '' '') (trim x)) CHR ''/'' =
                        [d', m', y'] \<and>
                      hh' \<noteq> [] \<and> mi' \<noteq> [] \<and>
                      s = y' @ ''-'' @ m' @ ''-'' @ d' @ ''T'' @ hh' @ '':'' @ mi' @ '':00'')"
    if p: "parseDate (Some x) = Some s"
    using parseDate_result[OF p] parseDate_shaped[OF p] by (simp add: date_shaped_def)
  have 1: "data_entrada a = t \<or> date_shaped (data_entrada a)"
    unfolding ea by (rule or_str_parseDate)
  have 2: "data_entrada b = t \<or> date_shaped (data_entrada b)"
    unfolding eb by (rule or_str_parseDate)
  have 3: "primeira_interacao a = None \<or> (\<exists>p. primeira_interacao a = Some p \<and> date_shaped p)"
    unfolding pa by (rule primeira_shape)
  have 4: "data_entrada a = y @ ''-'' @ m @ ''-'' @ d @ ''T'' @ hh @ '':'' @ mi @ '':00'' \<and>
           iso_anchor (data_entrada a)"
    if h: "digits 2 d" "digits 2 m" "digits 4 y" "digits 2 hh" "digits 2 mi"
      "getStr item ''datahoraentradalead'' = d @ ''/'' @ m @ ''/'' @ y @ '' '' @ hh @ '':'' @ mi"
  proof -
    have "data_entrada a = y @ ''-'' @ m @ ''-'' @ d @ ''T'' @ hh @ '':'' @ mi @ '':00''"
      unfolding ea h(6) using parseDate_date_time[OF h(1-5)] by (rule first_date_wins)
    then show ?thesis using anchor_reordered[OF h(3) h(2) h(1)] by simp
  qed
  from a b ca cb cp pb res 1 2 3 4 show ?thesis by blast
qed

text \<open>
  A record whose \<open>datahoraentradalead\<close> does not parse and whose \<open>data_entrada\<close> does: the
  attendance takes the second field, the raw lead, which reads neither \<open>data_entrada\<close> nor
  \<open>primeira_interacao\<close>, takes the current time.
\<close>

theorem normalized_dates_by_key_witness:
  "\<exists>a b. mapAtendimento ''0.5'' ''2026-01-01T00:00:00.000Z''
            (JObj [(''codigo'', JNum 7), (''datahoraentradalead'', JStr ''sem data''),
                   (''data_entrada'', JStr ''25/12/2024 14:30''),
                   (''primeira_interacao'', JStr ''2024-12-26T09:00:00'')]) = Inr a \<and>
          mapBruto ''0.5'' ''2026-01-01T00:00:00.000Z''
            (JObj [(''codigo'', JNum 7), (''datahoraentradalead'', JStr ''sem data''),
                   (''data_entrada'', JStr ''25/12/2024 14:30''),
                   (''primeira_interacao'', JStr ''2024-12-26T09:00:00'')]) = Inr b \<and>
          data_entrada a = ''2024-12-25T14:30:00'' \<and>
          primeira_interacao a = Some ''2024-12-26T09:00:00'' \<and>
          data_entrada b = ''2026-01-01T00:00:00.000Z'' \<and>
          primeira_interacao b = None"
  using normalized_dates_by_key [of
      "JObj [(''codigo'', JNum 7), (''datahoraentradalead'', JStr ''sem data''),
             (''data_entrada'', JStr ''25/12/2024 14:30''),
             (''primeira_interacao'', JStr ''2024-12-26T09:00:00'')]"
      "''0.5''" "''2026-01-01T00:00:00.000Z''" "[]" "[]" "[]" "[]" "[]" "[]" "[]"]
  by (simp add: is_nullish_def getStr_def getProp_def parseDate_def trim_def is_space_def
        iso_anchor_def is_digit_def split_js_def at_index_def or_str_def digits_def)
    blast

section \<open>Facts about maps and sorting\<close>

lemma set_insert_by: "set (insert_by cmp x ys) = insert x (set ys)"
  by (induction ys) auto

lemma set_sort_js: "set (sort_js cmp xs) = set xs"
  by (induction xs) (simp_all add: sort_js_def set_insert_by)

lemma length_insert_by: "length (insert_by cmp x ys) = Suc (length ys)"
  by (induction ys) auto

lemma length_sort_js: "length (sort_js cmp xs) = length xs"
  by (induction xs) (simp_all add: sort_js_def length_insert_by)

lemma map_throwing_Inr_set:
  "map_throwing f i xs = Inr ys \<Longrightarrow> y \<in> set ys \<Longrightarrow> \<exists>j x. x \<in> set xs \<and> f j x = Inr y"
proof (induction xs arbitrary: i ys)
  case Nil
  then show ?case by simp
next
  case (Cons x xs)
  from Cons.prems(1) obtain z zs where
    z: "f i x = Inr z" and zs: "map_throwing f (Suc i) xs = Inr zs" and ys: "ys = z # zs"
    by (auto split: sum.splits)
  show ?case
  proof (cases "y = z")
    case True
    then show ?thesis using z by auto
  next
    case False
    then have "y \<in> set zs" using Cons.prems(2) ys by simp
    from Cons.IH[OF zs this] show ?thesis by auto
  qed
qed

lemma map_throwing_Inr_length:
  "map_throwing f i xs = Inr ys \<Longrightarrow> length ys = length xs"
  by (induction xs arbitrary: i ys) (auto split: sum.splits)

lemma map_throwing_total:
  "(\<And>j x. x \<in> set xs \<Longrightarrow> \<exists>y. f j x = Inr y) \<Longrightarrow> \<exists>ys. map_throwing f i xs = Inr ys"
proof (induction xs arbitrary: i)
  case Nil
  then show ?case by simp
next
  case (Cons x xs)
  from Cons.prems[of x i] obtain y where y: "f i x = Inr y" by auto
  from Cons.IH[of "Suc i"] Cons.prems obtain ys where "map_throwing f (Suc i) xs = Inr ys"
    by auto
  then show ?case using y by simp
qed

lemma map_throwing_throws:
  "x \<in> set xs \<Longrightarrow> (\<And>j. \<exists>e. f j x = Inl e) \<Longrightarrow> \<exists>e. map_throwing f i xs = Inl e"
proof (induction xs arbitrary: i)
  case Nil
  then show ?case by simp
next
  case (Cons z zs)
  show ?case
  proof (cases "f i z")
    case (Inl e)
    then show ?thesis by simp
  next
    case (Inr v)
    then have "x \<noteq> z" using Cons.prems(2)[of i] by auto
    then have "x \<in> set zs" using Cons.prems(1) by simp
    from Cons.IH[OF this Cons.prems(2), of "Suc i"] show ?thesis using Inr by auto
  qed
qed

section \<open>Raw leads are pending\<close>

lemma mapBruto_Inr: "mapBruto r t item = Inr b \<Longrightarrow> primeira_interacao b = None \<and> \<not> tem_atendimento b"
  by (auto simp: mapBruto_def Let_def split: if_splits)

lemma mapAtendimento_Inr: "mapAtendimento r t item = Inr a \<Longrightarrow> tem_atendimento a"
  by (auto simp: mapAtendimento_def Let_def split: if_splits)

lemma normalize_received: "fetchLeadsAll_normalize r t (received l) = l"
  by (cases l) (simp add: fetchLeadsAll_normalize_def received_def nullish_or_def split: option.splits)

lemma pendentes_Cons_absent:
  "primeira_interacao c = None \<Longrightarrow>
   pendentes (kpis percent (c # others)) = Suc (pendentes (kpis percent others))"
  by (simp add: kpis_def Let_def truthy_str_def)

lemma GET_all_raw_absent:
  assumes "GET_proxy_leads_all api_key up rnd clock getTime = Inr resp"
    and "body resp = LeadsBody ls" and "l \<in> set ls" and "\<not> tem_atendimento l"
  shows "primeira_interacao l = None"
proof -
  have key: "truthy_str api_key"
    using assms(1,2) by (auto simp: GET_proxy_leads_all_def split: if_splits)
  let ?ats = "fetchAtendimentos up 1 @ fetchAtendimentos up 2"
  from assms(1) key obtain atendimentos leadsBrutos where
    at: "map_throwing (\<lambda>i. mapAtendimento (rnd i) (clock i)) 0 ?ats = Inr atendimentos"
    and br: "map_throwing (\<lambda>i. mapBruto (rnd i) (clock i)) (length ?ats) (fetchLeadsBrutos up)
             = Inr leadsBrutos"
    and resp: "resp = \<lparr> status_code = 200,
                 body = LeadsBody (sort_js (newest_first getTime data_entrada)
                                     (leadsBrutos @ atendimentos)) \<rparr>"
    by (auto simp: GET_proxy_leads_all_def Let_def split: sum.splits)
  from resp assms(2,3) have "l \<in> set leadsBrutos \<or> l \<in> set atendimentos"
    by (auto simp: set_sort_js)
  then show ?thesis
  proof
    assume "l \<in> set leadsBrutos"
    from map_throwing_Inr_set[OF br this] show ?thesis by (auto dest: mapBruto_Inr)
  next
    assume "l \<in> set atendimentos"
    from map_throwing_Inr_set[OF at this] have "tem_atendimento l"
      by (auto dest: mapAtendimento_Inr)
    then show ?thesis using assms(4) by simp
  qed
qed

lemma sla_against_now:
  "isLate (getSLAInfo getTime now entry None) =
   num_ge (num_sub (Some now) (getTime entry)) (120 * 60000)"
  by (simp add: getSLAInfo_def Let_def truthy_str_def late_core)

text \<open>
  Claim C10. Every lead of \<open>mapBruto\<close> has no \<open>primeira_interacao\<close> and \<open>tem_atendimento\<close>
  false, and every lead of \<open>mapAtendimento\<close> has \<open>tem_atendimento\<close> true. So a lead \<open>l\<close> of the
  response of \<open>proxy-leads-all\<close> with \<open>tem_atendimento\<close> false (a raw lead) reaches the
  dashboard unchanged, has no \<open>primeira_interacao\<close>, is counted by the \<open>pendentes\<close> KPI, and
  its SLA is measured from \<open>data_entrada\<close> to the current time.
\<close>

theorem raw_leads_are_pending:
  "(mapBruto r t item = Inr b \<longrightarrow> primeira_interacao b = None \<and> \<not> tem_atendimento b) \<and>
   (mapAtendimento r t item = Inr a \<longrightarrow> tem_atendimento a) \<and>
   (GET_proxy_leads_all api_key up rnd clock getTime = Inr resp \<and> body resp = LeadsBody ls \<and>
    l \<in> set ls \<and> \<not> tem_atendimento l \<longrightarrow>
      fetchLeadsAll_normalize r' t' (received l) = l \<and>
      primeira_interacao l = None \<and>
      pendentes (kpis percent (l # others)) = Suc (pendentes (kpis percent others)) \<and>
      isLate (getSLAInfo getTime' now (data_entrada l) (primeira_interacao l)) =
        num_ge (num_sub (Some now) (getTime' (data_entrada l))) (120 * 60000))"
proof -
  have "fetchLeadsAll_normalize r' t' (received l) = l \<and>
      primeira_interacao l = None \<and>
      pendentes (kpis percent (l # others)) = Suc (pendentes (kpis percent others)) \<and>
      isLate (getSLAInfo getTime' now (data_entrada l) (primeira_interacao l)) =
        num_ge (num_sub (Some now) (getTime' (data_entrada l))) (120 * 60000)"
    if h: "GET_proxy_leads_all api_key up rnd clock getTime = Inr resp" "body resp = LeadsBody ls"
      "l \<in> set ls" "\<not> tem_atendimento l"
  proof -
    have p: "primeira_interacao l = None" using h by (rule GET_all_raw_absent)
    show ?thesis using p normalize_received[of r' t' l] pendentes_Cons_absent[OF p, of percent others]
        sla_against_now[of getTime' now "data_entrada l"]
      by simp
  qed
  then show ?thesis using mapBruto_Inr[of r t item b] mapAtendimento_Inr[of r t item a] by blast
qed

text \<open>One raw lead behind the first candidate URL, every other request failing.\<close>

lemma show_int_1_2: "show_int 1 = ''1''" "show_int 2 = ''2''"
  by (simp_all add: show_int_def show_nat.simps)

lemma GET_all_example:
  "GET_proxy_leads_all (Some ''key'')
     (\<lambda>url. if url = ''https://api.imoview.com.br/Lead/RetornarLeads'' then
              OkJson (JObj [(''leads'', JArr [JObj [(''id'', JNum 1), (''nome'', JStr ''Ana''),
                                                   (''data_criacao'', JStr ''25/12/2024 14:30'')]])])
            else NotOk)
     (\<lambda>i. ''0.5'') (\<lambda>i. ''2026-01-01T00:00:00.000Z'') (\<lambda>s. None) =
   Inr \<lparr> status_code = 200,
         body = LeadsBody
           [\<lparr> lead_id = IdNum 1, nome = ''Ana'', telefone = [], email = [], status = ''Novo'',
              time = ''Geral'', data_entrada = ''2024-12-25T14:30:00'',
              primeira_interacao = None, origem = ''Site'', tem_atendimento = False \<rparr>] \<rparr>"
  by (simp add: GET_proxy_leads_all_def truthy_str_def fetchAtendimentos_def fetchLeadsBrutos_def
        BASE_URL_def show_int_1_2 extractList_def candidates_def getProp_def Let_def
        mapBruto_def is_nullish_def getNumOrStr_def getStr_def nullish_or_def or_s_def or_str_def
        or_opt_def parseDate_def trim_def is_space_def iso_anchor_def is_digit_def split_js_def
        at_index_def sort_js_def)

theorem raw_leads_are_pending_witness:
  "pendentes (kpis (\<lambda>a t. ''0.0'')
      [\<lparr> lead_id = IdNum 1, nome = ''Ana'', telefone = [], email = [], status = ''Novo'',
         time = ''Geral'', data_entrada = ''2024-12-25T14:30:00'',
         primeira_interacao = None, origem = ''Site'', tem_atendimento = False \<rparr>]) =
   Suc (pendentes (kpis (\<lambda>a t. ''0.0'') []))"
  using GET_all_example
    raw_leads_are_pending [of _ _ _ _ _ "Some ''key''"
      "\<lambda>url. if url = ''https://api.imoview.com.br/Lead/RetornarLeads'' then
              OkJson (JObj [(''leads'', JArr [JObj [(''id'', JNum 1), (''nome'', JStr ''Ana''),
                                                   (''data_criacao'', JStr ''25/12/2024 14:30'')]])])
            else NotOk"
      "\<lambda>i. ''0.5''" "\<lambda>i. ''2026-01-01T00:00:00.000Z''" "\<lambda>s. None"
      "\<lparr> status_code = 200,
         body = LeadsBody
           [\<lparr> lead_id = IdNum 1, nome = ''Ana'', telefone = [], email = [], status = ''Novo'',
              time = ''Geral'', data_entrada = ''2024-12-25T14:30:00'',
              primeira_interacao = None, origem = ''Site'', tem_atendimento = False \<rparr>] \<rparr>"
      "[\<lparr> lead_id = IdNum 1, nome = ''Ana'', telefone = [], email = [], status = ''Novo'',
              time = ''Geral'', data_entrada = ''2024-12-25T14:30:00'',
              primeira_interacao = None, origem = ''Site'', tem_atendimento = False \<rparr>]"
      "\<lparr> lead_id = IdNum 1, nome = ''Ana'', telefone = [], email = [], status = ''Novo'',
              time = ''Geral'', data_entrada = ''2024-12-25T14:30:00'',
              primeira_interacao = None, origem = ''Site'', tem_atendimento = False \<rparr>"
      "''0.5''" "''2026-01-01T00:00:00.000Z''" "\<lambda>a t. ''0.0''" "[]" "\<lambda>s. None" 0]
  by simp

text \<open>
  The leads the normalizers produce meet the data model: \<open>primeira_interacao\<close> is absent or
  a non-empty string, never the empty string.
\<close>

lemma normalizers_primeira_not_empty:
  "(mapAtendimento r t item = Inr a \<longrightarrow> primeira_interacao a \<noteq> Some []) \<and>
   (mapBruto r t item = Inr b \<longrightarrow> primeira_interacao b \<noteq> Some [])"
proof -
  have "primeira_interacao a \<noteq> Some []" if h: "mapAtendimento r t item = Inr a"
  proof -
    from h have "\<not> is_nullish item" by (auto simp: mapAtendimento_def split: if_splits)
    from mapAtendimento_dates[OF this, of r t] h
    have "primeira_interacao a =
            or_opt (or_opt (or_opt (parseDate (Some (getStr item ''datahoraultimainteracao'')))
                                   (parseDate (Some (getStr item ''primeira_interacao''))))
                           None) None"
      by auto
    then show ?thesis
      using primeira_shape[of "Some (getStr item ''datahoraultimainteracao'')"
          "Some (getStr item ''primeira_interacao'')"]
      by (auto simp: date_shaped_def)
  qed
  then show ?thesis using mapBruto_Inr[of r t item b] by auto
qed

lemma null_or_str_cases: "null_or_str a = JNull \<or> (\<exists>s. null_or_str a = JStr s \<and> s \<noteq> [])"
  by (cases a) (auto simp: null_or_str_def truthy_str_def or_str_def)

lemma mappedLead_primeira_not_empty:
  assumes "mappedLead r t item = Inr l"
  shows "getProp l ''primeira_interacao'' = JNull \<or>
         (\<exists>s. getProp l ''primeira_interacao'' = JStr s \<and> s \<noteq> [])"
proof -
  from assms have "getProp l ''primeira_interacao'' =
      null_or_str (parseImoviewDate (getProp item ''datahoraultimainteracao''))"
    by (auto simp: mappedLead_def Let_def getProp_def split: if_splits sum.splits)
  then show ?thesis using null_or_str_cases by simp
qed

section \<open>Status of the proxy handlers\<close>

lemma fetchAtendimentos_failures:
  "fetchAtendimentos (failures_as_empty up) f = fetchAtendimentos up f"
  by (simp add: fetchAtendimentos_def failures_as_empty_def source_failed_def extractList_def
        split: fetch_outcome.splits)

lemma failures_as_empty_cases:
  "(\<exists>d. up u = OkJson d \<and> failures_as_empty up u = OkJson d) \<or>
   (source_failed (up u) \<and> failures_as_empty up u = OkJson (JArr []))"
  by (cases "up u") (simp_all add: failures_as_empty_def source_failed_def)

lemma try_candidates_failures:
  "try_candidates (failures_as_empty up) urls = try_candidates up urls"
proof (induction urls)
  case Nil
  then show ?case by simp
next
  case (Cons u us)
  from failures_as_empty_cases[of up u] show ?case
  proof
    assume "\<exists>d. up u = OkJson d \<and> failures_as_empty up u = OkJson d"
    then show ?thesis using Cons.IH by (auto simp: Let_def)
  next
    assume a: "source_failed (up u) \<and> failures_as_empty up u = OkJson (JArr [])"
    then have "try_candidates up (u # us) = try_candidates up us"
      by (cases "up u") (simp_all add: source_failed_def)
    moreover have "try_candidates (failures_as_empty up) (u # us) =
                   try_candidates (failures_as_empty up) us"
      using a by (simp add: extractList_def)
    ultimately show ?thesis using Cons.IH by simp
  qed
qed

lemma fetchLeadsBrutos_failures: "fetchLeadsBrutos (failures_as_empty up) = fetchLeadsBrutos up"
  unfolding fetchLeadsBrutos_def by (rule try_candidates_failures)

lemma fetchLeads_failures: "fetchLeads (failures_as_empty up) f = fetchLeads up f"
  by (simp add: fetchLeads_def failures_as_empty_def source_failed_def
        split: fetch_outcome.splits)

lemma GET_all_failures:
  "GET_proxy_leads_all api_key (failures_as_empty up) rnd clock getTime =
   GET_proxy_leads_all api_key up rnd clock getTime"
  by (simp add: GET_proxy_leads_all_def fetchAtendimentos_failures fetchLeadsBrutos_failures)

lemma GET_leads_failures:
  "GET_proxy_leads api_key (failures_as_empty up) rnd clock getTime =
   GET_proxy_leads api_key up rnd clock getTime"
  by (simp add: GET_proxy_leads_def rawLeads_def fetchLeads_failures)

lemma try_candidates_all_failed:
  "(\<And>url. source_failed (up url)) \<Longrightarrow> try_candidates up urls = []"
proof (induction urls)
  case Nil
  then show ?case by simp
next
  case (Cons u us)
  then show ?case using Cons.prems[of u]
    by (cases "up u") (simp_all add: source_failed_def)
qed

lemma all_failed_lists:
  assumes "\<And>url. source_failed (up url)"
  shows "fetchAtendimentos up f = []" "fetchLeadsBrutos up = []" "rawLeads up = []"
proof -
  show "fetchAtendimentos up f = []"
    using assms[of "BASE_URL @
        ''/Atendimento/RetornarAtendimentos?numeroPagina=1&numeroRegistros=50'' @
        ''&finalidade='' @ show_int f @ ''&situacao=0''"]
    by (simp add: fetchAtendimentos_def source_failed_def split: fetch_outcome.splits)
  show "fetchLeadsBrutos up = []"
    unfolding fetchLeadsBrutos_def by (rule try_candidates_all_failed) (rule assms)
  have "fetchLeads up g = JArr []" for g
    using assms[of "BASE_URL @
        ''/Atendimento/RetornarAtendimentos?numeroPagina=1&numeroRegistros=20'' @
        ''&finalidade='' @ show_int g @ ''&situacao=0''"]
    by (simp add: fetchLeads_def source_failed_def split: fetch_outcome.splits)
  then show "rawLeads up = []"
    by (simp add: rawLeads_def extractList_proxy_leads_def is_array_def array_items_def)
qed

lemma mappedLead_throws_iff:
  "(\<exists>e. mappedLead r t x = Inl e) =
   (is_nullish x \<or> toString_opt (getProp x ''codigo'') = Inl TypeError)"
proof (cases "toString_opt (getProp x ''codigo'')")
  case (Inl e)
  then show ?thesis by (cases e) (simp add: mappedLead_def)
next
  case (Inr v)
  then show ?thesis by (simp add: mappedLead_def Let_def)
qed

lemma mappedLead_cases:
  "(\<exists>e. mappedLead r t x = Inl e) \<or> (\<exists>y. mappedLead r t x = Inr y)"
  by (cases "mappedLead r t x") auto

lemma GET_proxy_leads_outcome:
  assumes "truthy_str api_key"
  shows "if \<exists>x \<in> set (rawLeads up).
              is_nullish x \<or> toString_opt (getProp x ''codigo'') = Inl TypeError
         then GET_proxy_leads api_key up rnd clock getTime =
                \<lparr> status_code = 500, body = ErrorBody internal_failure_message \<rparr>
         else \<exists>ls. GET_proxy_leads api_key up rnd clock getTime =
                \<lparr> status_code = 200, body = LeadsBody ls \<rparr> \<and>
                length ls = length (rawLeads up)"
proof (cases "\<exists>x \<in> set (rawLeads up).
                is_nullish x \<or> toString_opt (getProp x ''codigo'') = Inl TypeError")
  case True
  then obtain x where x: "x \<in> set (rawLeads up)"
    and "is_nullish x \<or> toString_opt (getProp x ''codigo'') = Inl TypeError" by blast
  then have "\<And>j. \<exists>e. mappedLead (rnd j) (clock j) x = Inl e"
    using mappedLead_throws_iff by blast
  from map_throwing_throws[OF x, of "\<lambda>i. mappedLead (rnd i) (clock i)" 0, OF this]
  obtain e where "map_throwing (\<lambda>i. mappedLead (rnd i) (clock i)) 0 (rawLeads up) = Inl e"
    by blast
  then show ?thesis using True assms by (simp add: GET_proxy_leads_def)
next
  case False
  then have "\<And>j x. x \<in> set (rawLeads up) \<Longrightarrow> \<exists>y. mappedLead (rnd j) (clock j) x = Inr y"
    using mappedLead_throws_iff mappedLead_cases by blast
  from map_throwing_total[of "rawLeads up" "\<lambda>i. mappedLead (rnd i) (clock i)" 0, OF this]
  obtain ys where ys: "map_throwing (\<lambda>i. mappedLead (rnd i) (clock i)) 0 (rawLeads up) = Inr ys"
    by blast
  then show ?thesis using False assms map_throwing_Inr_length[OF ys]
    by (simp add: GET_proxy_leads_def length_sort_js)
qed

lemma map_not_nullish:
  assumes "\<not> is_nullish x"
  shows "\<exists>y. mapAtendimento r t x = Inr y" "\<exists>y. mapBruto r t x = Inr y"
  using assms by (simp_all add: mapAtendimento_def mapBruto_def Let_def)

lemma GET_proxy_leads_all_ok:
  assumes "truthy_str api_key"
    and "\<forall>x \<in> set (fetchAtendimentos up 1 @ fetchAtendimentos up 2 @ fetchLeadsBrutos up).
           \<not> is_nullish x"
  shows "\<exists>ls. GET_proxy_leads_all api_key up rnd clock getTime =
                Inr \<lparr> status_code = 200, body = LeadsBody ls \<rparr> \<and>
              length ls = length (fetchAtendimentos up 1 @ fetchAtendimentos up 2 @
                                  fetchLeadsBrutos up)"
proof -
  let ?ats = "fetchAtendimentos up 1 @ fetchAtendimentos up 2"
  have "\<And>j x. x \<in> set ?ats \<Longrightarrow> \<exists>y. mapAtendimento (rnd j) (clock j) x = Inr y"
    using assms(2) map_not_nullish(1) by auto
  from map_throwing_total[of ?ats "\<lambda>i. mapAtendimento (rnd i) (clock i)" 0, OF this]
  obtain as where as: "map_throwing (\<lambda>i. mapAtendimento (rnd i) (clock i)) 0 ?ats = Inr as"
    by blast
  have "\<And>j x. x \<in> set (fetchLeadsBrutos up) \<Longrightarrow> \<exists>y. mapBruto (rnd j) (clock j) x = Inr y"
    using assms(2) map_not_nullish(2) by auto
  from map_throwing_total[of "fetchLeadsBrutos up" "\<lambda>i. mapBruto (rnd i) (clock i)"
      "length ?ats", OF this]
  obtain bs where bs: "map_throwing (\<lambda>i. mapBruto (rnd i) (clock i)) (length ?ats)
      (fetchLeadsBrutos up) = Inr bs"
    by blast
  show ?thesis
    using assms(1) as bs map_throwing_Inr_length[OF as] map_throwing_Inr_length[OF bs]
    by (simp add: GET_proxy_leads_all_def Let_def length_sort_js)
qed

text \<open>
  \<open>proxy-leads-all\<close> has no \<open>catch\<close> of its own: on the same upstream the exception leaves
  the handler.
\<close>

lemma GET_proxy_leads_all_throws_on_null:
  "GET_proxy_leads_all (Some ''key'') (\<lambda>url. OkJson (JArr [JNull])) (\<lambda>i. ''0.5'')
     (\<lambda>i. ''2026-01-01T00:00:00.000Z'') (\<lambda>s. None) = Inl TypeError"
  by (simp add: GET_proxy_leads_all_def truthy_str_def fetchAtendimentos_def extractList_def
        mapAtendimento_def is_nullish_def)

text \<open>
  Claim C2, as stated, fails: with the API key set, \<open>proxy-leads\<close> answers 500 when its
  \<open>catch\<close> is reached, for instance when an upstream list holds \<open>null\<close>.
\<close>

theorem proxy_leads_500_with_key:
  "truthy_str (Some ''key'') \<and>
   GET_proxy_leads (Some ''key'') (\<lambda>url. OkJson (JArr [JNull])) (\<lambda>i. ''0.5'')
     (\<lambda>i. ''2026-01-01T00:00:00.000Z'') (\<lambda>s. None) =
     \<lparr> status_code = 500, body = ErrorBody ''Falha interna ao conectar com a API'' \<rparr>"
  by (simp add: GET_proxy_leads_def truthy_str_def rawLeads_def fetchLeads_def
        extractList_proxy_leads_def is_array_def array_items_def mappedLead_def is_nullish_def
        internal_failure_message_def)

text \<open>
  Claim C2, amended. Without the API key both handlers answer 500 with the error body. A
  source that fails (\<open>fetch\<close> throws, the response is not \<open>ok\<close>, the body does not parse)
  counts exactly as one that answered the empty list; when every source fails the answer is
  200 with no leads. With the key, \<open>proxy-leads-all\<close> answers 200 with one lead per upstream
  record whenever no record is \<open>null\<close> or \<open>undefined\<close>; \<open>proxy-leads\<close> answers 200 with one
  lead per record unless a record is \<open>null\<close> or \<open>undefined\<close> or its \<open>codigo\<close> cannot be
  printed, and then it answers 500 with the error body of its \<open>catch\<close>.
\<close>

theorem proxy_handlers_status:
  "(\<not> truthy_str api_key \<longrightarrow>
      GET_proxy_leads_all api_key up rnd clock getTime =
        Inr \<lparr> status_code = 500, body = ErrorBody missing_key_message \<rparr> \<and>
      GET_proxy_leads api_key up rnd clock getTime =
        \<lparr> status_code = 500, body = ErrorBody missing_key_message \<rparr>) \<and>
   GET_proxy_leads_all api_key (failures_as_empty up) rnd clock getTime =
     GET_proxy_leads_all api_key up rnd clock getTime \<and>
   GET_proxy_leads api_key (failures_as_empty up) rnd clock getTime =
     GET_proxy_leads api_key up rnd clock getTime \<and>
   (truthy_str api_key \<and> (\<forall>url. source_failed (up url)) \<longrightarrow>
      GET_proxy_leads_all api_key up rnd clock getTime =
        Inr \<lparr> status_code = 200, body = LeadsBody [] \<rparr> \<and>
      GET_proxy_leads api_key up rnd clock getTime =
        \<lparr> status_code = 200, body = LeadsBody [] \<rparr>) \<and>
   (truthy_str api_key \<and>
    (\<forall>x \<in> set (fetchAtendimentos up 1 @ fetchAtendimentos up 2 @ fetchLeadsBrutos up).
       \<not> is_nullish x) \<longrightarrow>
      (\<exists>ls. GET_proxy_leads_all api_key up rnd clock getTime =
               Inr \<lparr> status_code = 200, body = LeadsBody ls \<rparr> \<and>
             length ls = length (fetchAtendimentos up 1 @ fetchAtendimentos up 2 @
                                 fetchLeadsBrutos up))) \<and>
   (truthy_str api_key \<longrightarrow>
      (if \<exists>x \<in> set (rawLeads up).
            is_nullish x \<or> toString_opt (getProp x ''codigo'') = Inl TypeError
       then GET_proxy_leads api_key up rnd clock getTime =
              \<lparr> status_code = 500, body = ErrorBody internal_failure_message \<rparr>
       else \<exists>ls. GET_proxy_leads api_key up rnd clock getTime =
              \<lparr> status_code = 200, body = LeadsBody ls \<rparr> \<and>
              length ls = length (rawLeads up)))"
proof -
  have nokey: "GET_proxy_leads_all api_key up rnd clock getTime =
        Inr \<lparr> status_code = 500, body = ErrorBody missing_key_message \<rparr> \<and>
      GET_proxy_leads api_key up rnd clock getTime =
        \<lparr> status_code = 500, body = ErrorBody missing_key_message \<rparr>"
    if "\<not> truthy_str api_key"
    using that by (simp add: GET_proxy_leads_all_def GET_proxy_leads_def)
  have allfail: "GET_proxy_leads_all api_key up rnd clock getTime =
        Inr \<lparr> status_code = 200, body = LeadsBody [] \<rparr> \<and>
      GET_proxy_leads api_key up rnd clock getTime =
        \<lparr> status_code = 200, body = LeadsBody [] \<rparr>"
    if "truthy_str api_key" "\<forall>url. source_failed (up url)"
    using that all_failed_lists[of up]
    by (simp add: GET_proxy_leads_all_def GET_proxy_leads_def sort_js_def)
  show ?thesis
    using nokey allfail GET_all_failures[of api_key up rnd clock getTime]
      GET_leads_failures[of api_key up rnd clock getTime]
      GET_proxy_leads_all_ok[of api_key up rnd clock getTime]
      GET_proxy_leads_outcome[of api_key up rnd clock getTime]
    by blast
qed

text \<open>Every request failing, with and without the key.\<close>

theorem proxy_handlers_status_witness:
  "GET_proxy_leads_all (Some ''key'') (\<lambda>url. NotOk) (\<lambda>i. ''0.5'')
     (\<lambda>i. ''2026-01-01T00:00:00.000Z'') (\<lambda>s. None) =
     Inr \<lparr> status_code = 200, body = LeadsBody [] \<rparr> \<and>
   GET_proxy_leads (Some ''key'') (\<lambda>url. FetchThrows) (\<lambda>i. ''0.5'')
     (\<lambda>i. ''2026-01-01T00:00:00.000Z'') (\<lambda>s. None) =
     \<lparr> status_code = 200, body = LeadsBody [] \<rparr> \<and>
   GET_proxy_leads None (\<lambda>url. OkJson (JArr [])) (\<lambda>i. ''0.5'')
     (\<lambda>i. ''2026-01-01T00:00:00.000Z'') (\<lambda>s. None) =
     \<lparr> status_code = 500, body = ErrorBody missing_key_message \<rparr>"
  using proxy_handlers_status [of "Some ''key''" "\<lambda>url. NotOk" "\<lambda>i. ''0.5''"
      "\<lambda>i. ''2026-01-01T00:00:00.000Z''" "\<lambda>s. None"]
    proxy_handlers_status [of "Some ''key''" "\<lambda>url. FetchThrows" "\<lambda>i. ''0.5''"
      "\<lambda>i. ''2026-01-01T00:00:00.000Z''" "\<lambda>s. None"]
    proxy_handlers_status [of None "\<lambda>url. OkJson (JArr [])" "\<lambda>i. ''0.5''"
      "\<lambda>i. ''2026-01-01T00:00:00.000Z''" "\<lambda>s. None"]
  by (simp add: truthy_str_def source_failed_def)

end
